theory Spec2Isabelle
  imports Main "HOL-Library.Word" "HOL-Library.Signed_Division" "HOL-Library.Sublist"
begin

section \<open>Login and renewal of the CF auth backend (path\_login.go)\<close>

text \<open>
  A shallow embedding of the two handlers of \<^verbatim>\<open>path_login.go\<close>, the login and the
  renewal, and of the functions they call in that file; each is a HOL function of the
  same name. What the file calls but does not define (the Go standard library, the Vault
  SDK, the CF client and the packages \<^verbatim>\<open>models\<close>, \<^verbatim>\<open>signatures\<close> and \<^verbatim>\<open>util\<close>) is a
  field of the record \<open>env\<close> or of the request's storage, so that every theorem holds
  for whatever those collaborators compute. Three small library functions are written
  out: \<^verbatim>\<open>strutil.StrListContains\<close>, \<^verbatim>\<open>strings.Split\<close> on a separator of one character
  and \<^verbatim>\<open>IP.Equal\<close>.
\<close>

subsection \<open>Go values\<close>

text \<open>
  \<^verbatim>\<open>time.Duration\<close> is an \<^verbatim>\<open>int64\<close> count of nanoseconds: a 64-bit word read with
  \<open>sint\<close>, whose arithmetic wraps. A \<^verbatim>\<open>time.Time\<close> is the instant it denotes, in
  nanoseconds on the integer line (the login flow only compares instants that carry no
  monotonic reading: \<^verbatim>\<open>UTC()\<close> strips it and parsed times never have one).
\<close>

type_synonym duration = "64 word"
type_synonym time = int

text \<open>A function that may panic (a nil dereference) instead of returning.\<close>

datatype 'a go = Panics | Returns 'a

text \<open>
  Errors: the sentinel \<^verbatim>\<open>logical.ErrPermissionDenied\<close> and errors made from a message
  (\<^verbatim>\<open>errors.New\<close>, \<^verbatim>\<open>fmt.Errorf\<close>, and the errors of the collaborators).
\<close>

datatype error = ErrPermissionDenied | Error string

fun Error_msg :: "error \<Rightarrow> string" where
  "Error_msg ErrPermissionDenied = ''permission denied''"
| "Error_msg (Error m) = m"

text \<open>A value of type \<^verbatim>\<open>interface{}\<close> as it is stored in \<^verbatim>\<open>Auth.InternalData\<close>.\<close>

datatype ifc = IString string | IInt int | IBool bool | INil

text \<open>\<^verbatim>\<open>net.IP\<close> is a byte slice; \<^verbatim>\<open>nil\<close> is the empty list.\<close>

type_synonym ip = "8 word list"

text \<open>An X.509 certificate, as its encoding.\<close>

type_synonym certificate = string

subsection \<open>Data model\<close>

record roleEntry =
  BoundAppIDs :: "string list"
  BoundSpaceIDs :: "string list"
  BoundOrgIDs :: "string list"
  BoundInstanceIDs :: "string list"
  DisableIPMatching :: bool
  TokenBoundCIDRs :: "string list"
  TokenTTL :: duration
  TokenMaxTTL :: duration
  TokenPeriod :: duration

record configuration =
  IdentityCACertificates :: "string list"
  LoginMaxSecNotBefore :: duration
  LoginMaxSecNotAfter :: duration

record cFCertificate =
  InstanceID :: string
  AppID :: string
  OrgID :: string
  SpaceID :: string
  IPAddress :: string

record signatureData =
  SigningTime :: time
  Role :: string
  CFInstanceCertContents :: string

record logical_alias =
  alias_Name :: string
  Metadata :: "string \<rightharpoonup> string"

record auth =
  InternalData :: "string \<rightharpoonup> ifc"
  DisplayName :: string
  Alias :: "logical_alias option"
  Policies :: "string list"
  TTL :: duration
  MaxTTL :: duration
  Period :: duration

text \<open>
  \<^verbatim>\<open>*logical.Response\<close>: either \<^verbatim>\<open>logical.ErrorResponse(msg)\<close>, the soft error the
  caller sees, or a response carrying an \<^verbatim>\<open>Auth\<close>.
\<close>

datatype response = ErrorResponse string | AuthResponse auth

text \<open>
  The pair \<^verbatim>\<open>(*logical.Response, error)\<close> that a handler returns: \<open>Inl err\<close> is
  \<^verbatim>\<open>return nil, err\<close> (a hard error), \<open>Inr resp\<close> is \<^verbatim>\<open>return resp, nil\<close>.
\<close>

type_synonym handler_result = "(error + response) go"

record connection =
  RemoteAddr :: string

text \<open>
  \<^verbatim>\<open>req.Storage\<close>, seen through the two accessors the handlers use:
  \<^verbatim>\<open>getRole(ctx, req.Storage, name)\<close> and \<^verbatim>\<open>getConfig(ctx, req.Storage)\<close>, each
  returning a pointer (\<open>None\<close> is \<^verbatim>\<open>nil\<close>) or an error.
\<close>

record storage =
  getRole :: "string \<Rightarrow> error + roleEntry option"
  getConfig :: "error + configuration option"

record request =
  Storage :: storage
  Connection :: "connection option"
  Auth :: "auth option"

text \<open>
  \<^verbatim>\<open>framework.FieldData\<close>: the raw fields of the request. All four fields of the login
  path have type \<^verbatim>\<open>TypeString\<close>, for which \<^verbatim>\<open>Get\<close> yields the empty string when the
  field is not given.
\<close>

type_synonym fieldData = "string \<rightharpoonup> string"

definition data_Get :: "fieldData \<Rightarrow> string \<Rightarrow> string" where
  "data_Get d k = (case d k of None \<Rightarrow> [] | Some v \<Rightarrow> v)"

text \<open>The records of the CF API that \<^verbatim>\<open>validate\<close> reads, and the client's three lookups.\<close>

record app =
  app_Guid :: string
  app_Name :: string
  app_SpaceGuid :: string
  app_Instances :: int

record org =
  org_Guid :: string
  org_Name :: string

record space =
  space_Guid :: string
  space_Name :: string
  space_OrganizationGuid :: string

record client =
  AppByGuid :: "string \<Rightarrow> error + app"
  GetOrgByGuid :: "string \<Rightarrow> error + org"
  GetSpaceByGuid :: "string \<Rightarrow> error + space"

text \<open>The part of the backend's state that this file writes.\<close>

record backend =
  cfClientTainted :: bool

text \<open>
  The collaborators. \<open>fmt_q\<close> is the verb \<^verbatim>\<open>%q\<close> of package fmt on a string and
  \<open>time_String\<close> is \<^verbatim>\<open>Time.String\<close>. The two certificate constructors return Go's
  pair of a pointer and an error as a pair; \<open>getCFClientOrRefresh\<close> is a method of the
  backend and returns the backend's state with its result.
\<close>

record env =
  RemoteAddrIsOk :: "string \<Rightarrow> string list \<Rightarrow> bool"
  ParseIP :: "string \<Rightarrow> ip"
  time_Parse :: "string \<Rightarrow> string \<Rightarrow> error + time"
  TimeFormat :: string
  BashTimeFormat :: string
  time_String :: "time \<Rightarrow> string"
  fmt_q :: "string \<Rightarrow> string"
  ExtractCertificates :: "string \<Rightarrow> error + certificate \<times> certificate"
  Verify :: "string \<Rightarrow> signatureData \<Rightarrow> error + certificate"
  Validate :: "string list \<Rightarrow> certificate \<Rightarrow> certificate \<Rightarrow> certificate \<Rightarrow> error option"
  NewCFCertificateFromx509 :: "certificate \<Rightarrow> cFCertificate option \<times> error option"
  NewCFCertificate ::
    "string \<Rightarrow> string \<Rightarrow> string \<Rightarrow> string \<Rightarrow> string \<Rightarrow> cFCertificate option \<times> error option"
  getCFClientOrRefresh :: "backend \<Rightarrow> configuration \<Rightarrow> (error + client) \<times> backend"
  PopulateTokenAuth :: "roleEntry \<Rightarrow> auth \<Rightarrow> auth"

subsection \<open>Formatting\<close>

text \<open>The verb \<^verbatim>\<open>%d\<close> on an integer: decimal digits, with a sign when negative.\<close>

fun digits :: "nat \<Rightarrow> string" where
  "digits n = (if n < 10 then [char_of (48 + n)] else digits (n div 10) @ [char_of (48 + n mod 10)])"

definition fmt_d :: "int \<Rightarrow> string" where
  "fmt_d i = (if i < 0 then CHR ''-'' # digits (nat (- i)) else digits (nat i))"

text \<open>The verb \<^verbatim>\<open>%s\<close> on a slice of strings: the elements between brackets, a space apart.\<close>

fun join_space :: "string list \<Rightarrow> string" where
  "join_space [] = []"
| "join_space [x] = x"
| "join_space (x # y # ys) = x @ '' '' @ join_space (y # ys)"

definition fmt_s_list :: "string list \<Rightarrow> string" where
  "fmt_s_list xs = ''['' @ join_space xs @ '']''"

text \<open>
  \<^verbatim>\<open>time.Second\<close>, and the division of \<^verbatim>\<open>int64\<close>, which truncates towards zero and
  wraps.
\<close>

definition Second :: duration where
  "Second = 1000000000"

definition duration_div :: "duration \<Rightarrow> duration \<Rightarrow> duration" where
  "duration_div a b = word_of_int (sint a sdiv sint b)"

text \<open>\<^verbatim>\<open>Time.Add\<close>, \<^verbatim>\<open>Time.Before\<close> and \<^verbatim>\<open>Time.After\<close> on instants.\<close>

definition time_Add :: "time \<Rightarrow> duration \<Rightarrow> time" where
  "time_Add t d = t + sint d"

definition time_Before :: "time \<Rightarrow> time \<Rightarrow> bool" where
  "time_Before t u = (t < u)"

definition time_After :: "time \<Rightarrow> time \<Rightarrow> bool" where
  "time_After t u = (t > u)"

subsection \<open>Constraint matching\<close>

text \<open>
  \<^verbatim>\<open>strutil.StrListContains(haystack, needle)\<close> of go-secure-stdlib: a loop over the
  slice that returns true at the first item equal to the needle.
\<close>

fun StrListContains :: "string list \<Rightarrow> string \<Rightarrow> bool" where
  "StrListContains [] needle = False"
| "StrListContains (item # haystack) needle =
     (if item = needle then True else StrListContains haystack needle)"

definition meetsBoundConstraints :: "string \<Rightarrow> string list \<Rightarrow> bool" where
  "meetsBoundConstraints certValue constraints =
     (if length constraints = 0 then True
      else StrListContains constraints certValue)"

text \<open>
  \<^verbatim>\<open>strings.Split(s, sep)\<close> for a separator of one character: the pieces of \<open>s\<close> between
  the separators, of which there is always at least one.
\<close>

fun strings_Split :: "string \<Rightarrow> char \<Rightarrow> string list" where
  "strings_Split [] sep = [] # []"
| "strings_Split (c # cs) sep =
     (if c = sep then [] # strings_Split cs sep
      else (case strings_Split cs sep of
              [] \<Rightarrow> [c] # []
            | p # ps \<Rightarrow> (c # p) # ps))"

text \<open>
  \<^verbatim>\<open>IP.Equal\<close>: equal byte slices, or an IPv4 address and its 16-byte form.
\<close>

definition v4InV6Prefix :: ip where
  "v4InV6Prefix = [0, 0, 0, 0, 0, 0, 0, 0, 0, 0, 0xff, 0xff]"

definition IP_Equal :: "ip \<Rightarrow> ip \<Rightarrow> bool" where
  "IP_Equal a x =
     (if length a = length x then a = x
      else if length a = 4 \<and> length x = 16 then take 12 x = v4InV6Prefix \<and> a = drop 12 x
      else if length a = 16 \<and> length x = 4 then take 12 a = v4InV6Prefix \<and> drop 12 a = x
      else False)"

definition matchesIPAddress :: "env \<Rightarrow> string \<Rightarrow> ip \<Rightarrow> bool" where
  "matchesIPAddress E remoteAddr certIP =
     (let parts = strings_Split remoteAddr CHR ''/'';
          reqIPAddr = ParseIP E (parts ! 0)
      in if IP_Equal certIP reqIPAddr then True else False)"

subsection \<open>Parsing the signing time\<close>

definition parseTime :: "env \<Rightarrow> string \<Rightarrow> error + time" where
  "parseTime E signingTime =
     (case time_Parse E (TimeFormat E) signingTime of
        Inr t \<Rightarrow> Inr t
      | Inl _ \<Rightarrow>
          (case time_Parse E (BashTimeFormat E) signingTime of
             Inr t \<Rightarrow> Inr t
           | Inl _ \<Rightarrow> Inl (Error (''couldn't parse '' @ signingTime))))"

subsection \<open>Pulling a string from a map\<close>

text \<open>
  The argument \<^verbatim>\<open>from interface{}\<close> of \<^verbatim>\<open>getOrErr\<close>, by the cases of its type switch:
  a \<^verbatim>\<open>map[string]interface{}\<close>, a \<^verbatim>\<open>map[string]string\<close>, or anything else.
\<close>

datatype container =
  MapIfc "string \<rightharpoonup> ifc"
| MapString "string \<rightharpoonup> string"
| OtherType

text \<open>
  In the first case the type assertion \<^verbatim>\<open>v, ok := vIfc.(string)\<close> leaves \<open>v\<close> empty when
  the value is no string, and \<open>ok\<close> is not read.
\<close>

fun getOrErr :: "env \<Rightarrow> string \<Rightarrow> container \<Rightarrow> error + string" where
  "getOrErr E fieldName (MapIfc givenMap) =
     (case givenMap fieldName of
        None \<Rightarrow> Inl (Error (''unable to retrieve '' @ fmt_q E fieldName @ '' during renewal''))
      | Some vIfc \<Rightarrow>
          (let v = (case vIfc of IString s \<Rightarrow> s | _ \<Rightarrow> [])
           in if v = []
              then Inl (Error (''unable to retrieve '' @ fmt_q E fieldName
                                 @ '' during renewal, not a string''))
              else Inr v))"
| "getOrErr E fieldName (MapString givenMap) =
     (case givenMap fieldName of
        None \<Rightarrow> Inl (Error (''unable to retrieve '' @ fmt_q E fieldName @ '' during renewal''))
      | Some v \<Rightarrow> Inr v)"
| "getOrErr E fieldName OtherType =
     Inl (Error (''unrecognized type for structure containing '' @ fieldName))"

subsection \<open>Cross-checking a certificate against the role and the CF API\<close>

text \<open>
  \<^verbatim>\<open>validate\<close> receives the certificate as a pointer and reads its fields at once, so a
  \<^verbatim>\<open>nil\<close> certificate panics. Each \<^verbatim>\<open>return\<close> of the source is one branch below, in
  the source's order.
\<close>

definition validate ::
  "env \<Rightarrow> client \<Rightarrow> roleEntry \<Rightarrow> cFCertificate option \<Rightarrow> string \<Rightarrow> error option go" where
  "validate E cl role cfCertp reqConnRemoteAddr =
     (case cfCertp of
        None \<Rightarrow> Panics
      | Some cfCert \<Rightarrow>
          if \<not> DisableIPMatching role
             \<and> \<not> matchesIPAddress E reqConnRemoteAddr (ParseIP E (IPAddress cfCert))
          then Returns (Some (Error ''no matching IP address''))
          else if \<not> meetsBoundConstraints (InstanceID cfCert) (BoundInstanceIDs role)
          then Returns (Some (Error (''instance ID '' @ InstanceID cfCert
                 @ '' doesn't match role constraints of '' @ fmt_s_list (BoundInstanceIDs role))))
          else if \<not> meetsBoundConstraints (AppID cfCert) (BoundAppIDs role)
          then Returns (Some (Error (''app ID '' @ AppID cfCert
                 @ '' doesn't match role constraints of '' @ fmt_s_list (BoundAppIDs role))))
          else if \<not> meetsBoundConstraints (OrgID cfCert) (BoundOrgIDs role)
          then Returns (Some (Error (''org ID '' @ OrgID cfCert
                 @ '' doesn't match role constraints of '' @ fmt_s_list (BoundOrgIDs role))))
          else if \<not> meetsBoundConstraints (SpaceID cfCert) (BoundSpaceIDs role)
          then Returns (Some (Error (''space ID '' @ SpaceID cfCert
                 @ '' doesn't match role constraints of '' @ fmt_s_list (BoundSpaceIDs role))))
          else
            (case AppByGuid cl (AppID cfCert) of
               Inl err \<Rightarrow> Returns (Some err)
             | Inr ap \<Rightarrow>
                 if app_Guid ap \<noteq> AppID cfCert
                 then Returns (Some (Error (''cert app ID '' @ AppID cfCert
                        @ '' doesn't match API's expected one of '' @ app_Guid ap)))
                 else if app_SpaceGuid ap \<noteq> SpaceID cfCert
                 then Returns (Some (Error (''cert space ID '' @ SpaceID cfCert
                        @ '' doesn't match API's expected one of '' @ app_SpaceGuid ap)))
                 else if app_Instances ap \<le> 0
                 then Returns (Some (Error ''app doesn't have any live instances''))
                 else
                   (case GetOrgByGuid cl (OrgID cfCert) of
                      Inl err \<Rightarrow> Returns (Some err)
                    | Inr og \<Rightarrow>
                        if org_Guid og \<noteq> OrgID cfCert
                        then Returns (Some (Error (''cert org ID '' @ OrgID cfCert
                               @ '' doesn't match API's expected one of '' @ org_Guid og)))
                        else
                          (case GetSpaceByGuid cl (SpaceID cfCert) of
                             Inl err \<Rightarrow> Returns (Some err)
                           | Inr sp \<Rightarrow>
                               if space_Guid sp \<noteq> SpaceID cfCert
                               then Returns (Some (Error (''cert space ID '' @ SpaceID cfCert
                                      @ '' doesn't match API's expected one of '' @ space_Guid sp)))
                               else if space_OrganizationGuid sp \<noteq> OrgID cfCert
                               then Returns (Some (Error (''cert org ID '' @ OrgID cfCert
                                      @ '' doesn't match API's expected one of ''
                                      @ space_OrganizationGuid sp)))
                               else Returns None))))"

definition getOrgName :: "client \<Rightarrow> cFCertificate option \<Rightarrow> (error + string) go" where
  "getOrgName cl cfCertp =
     (case cfCertp of
        None \<Rightarrow> Panics
      | Some cfCert \<Rightarrow>
          (case GetOrgByGuid cl (OrgID cfCert) of
             Inl err \<Rightarrow> Returns (Inl err)
           | Inr og \<Rightarrow> Returns (Inr (org_Name og))))"

definition getAppName :: "client \<Rightarrow> cFCertificate option \<Rightarrow> (error + string) go" where
  "getAppName cl cfCertp =
     (case cfCertp of
        None \<Rightarrow> Panics
      | Some cfCert \<Rightarrow>
          (case AppByGuid cl (AppID cfCert) of
             Inl err \<Rightarrow> Returns (Inl err)
           | Inr ap \<Rightarrow> Returns (Inr (app_Name ap))))"

definition getSpaceName :: "client \<Rightarrow> cFCertificate option \<Rightarrow> (error + string) go" where
  "getSpaceName cl cfCertp =
     (case cfCertp of
        None \<Rightarrow> Panics
      | Some cfCert \<Rightarrow>
          (case GetSpaceByGuid cl (SpaceID cfCert) of
             Inl err \<Rightarrow> Returns (Inl err)
           | Inr sp \<Rightarrow> Returns (Inr (space_Name sp))))"

subsection \<open>Statements that return early\<close>

text \<open>
  Both handlers are a sequence of statements, each of which either executes a
  \<^verbatim>\<open>return\<close> (or panics), which ends the handler with that result, or falls through to
  the next statement with the variables it has assigned. \<open>andThen s k\<close> runs the rest
  \<open>k\<close> of the function body after the statement \<open>s\<close>.
\<close>

datatype 'a flow = Return "handler_result \<times> backend" | Continue 'a

definition andThen ::
  "'a flow \<Rightarrow> ('a \<Rightarrow> handler_result \<times> backend) \<Rightarrow> handler_result \<times> backend" where
  "andThen s k = (case s of Return r \<Rightarrow> r | Continue x \<Rightarrow> k x)"

subsection \<open>Login\<close>

text \<open>
  \<^verbatim>\<open>operationLoginUpdate\<close> is given in two parts, for the sake of the statements below:
  \<open>loginVerifyAndIssue\<close> is the body of the handler from the call of
  \<^verbatim>\<open>util.ExtractCertificates\<close> to its end, with the variables that are in scope there
  as arguments, and \<open>operationLoginUpdate\<close> is the handler, whose last statements are
  that part. \<^verbatim>\<open>req.Connection\<close> is a pointer, read without a check where
  \<^verbatim>\<open>validate\<close> is called. Logging is left out, and so is the read lock.
\<close>

definition loginVerifyAndIssue ::
  "env \<Rightarrow> backend \<Rightarrow> request \<Rightarrow> string \<Rightarrow> roleEntry \<Rightarrow> string \<Rightarrow> string \<Rightarrow> time
     \<Rightarrow> configuration \<Rightarrow> handler_result \<times> backend" where
  "loginVerifyAndIssue E b req roleName role signature cfInstanceCertContents signingTime config =
     (
      andThen (case ExtractCertificates E cfInstanceCertContents of
                 Inl err \<Rightarrow> Return (Returns (Inr (ErrorResponse (Error_msg err))), b)
               | Inr certs \<Rightarrow> Continue certs) (\<lambda>(intermediateCert, identityCert).
      andThen (case Verify E signature
                      \<lparr>SigningTime = signingTime, Role = roleName,
                       CFInstanceCertContents = cfInstanceCertContents\<rparr> of
                 Inl err \<Rightarrow> Return (Returns (Inr (ErrorResponse (Error_msg err))), b)
               | Inr signingCert \<Rightarrow> Continue signingCert) (\<lambda>signingCert.
      andThen (case Validate E (IdentityCACertificates config)
                      intermediateCert identityCert signingCert of
                 Some err \<Rightarrow> Return (Returns (Inr (ErrorResponse (Error_msg err))), b)
               | None \<Rightarrow> Continue ()) (\<lambda>_.
      andThen (case snd (NewCFCertificateFromx509 E signingCert) of
                 Some err \<Rightarrow> Return (Returns (Inl err), b)
               | None \<Rightarrow> Continue (fst (NewCFCertificateFromx509 E signingCert))) (\<lambda>cfCert.
      andThen (case fst (getCFClientOrRefresh E b config) of
                 Inl err \<Rightarrow>
                   Return (Returns (Inr (ErrorResponse (Error_msg err))),
                           snd (getCFClientOrRefresh E b config))
               | Inr cl \<Rightarrow> Continue (cl, snd (getCFClientOrRefresh E b config))) (\<lambda>(cl, b').
      andThen (case Connection req of
                 None \<Rightarrow> Return (Panics, b')
               | Some conn \<Rightarrow> Continue (RemoteAddr conn)) (\<lambda>remoteAddr.
      andThen (case validate E cl role cfCert remoteAddr of
                 Panics \<Rightarrow> Return (Panics, b')
               | Returns (Some err) \<Rightarrow>
                   Return (Returns (Inr (ErrorResponse (Error_msg err))), b')
               | Returns None \<Rightarrow> Continue ()) (\<lambda>_.
      andThen (case getOrgName cl cfCert of
                 Panics \<Rightarrow> Return (Panics, b')
               | Returns (Inl err) \<Rightarrow> Return (Returns (Inl err), b')
               | Returns (Inr orgName) \<Rightarrow> Continue orgName) (\<lambda>orgName.
      andThen (case getAppName cl cfCert of
                 Panics \<Rightarrow> Return (Panics, b')
               | Returns (Inl err) \<Rightarrow> Return (Returns (Inl err), b')
               | Returns (Inr appName) \<Rightarrow> Continue appName) (\<lambda>appName.
      andThen (case getSpaceName cl cfCert of
                 Panics \<Rightarrow> Return (Panics, b')
               | Returns (Inl err) \<Rightarrow> Return (Returns (Inl err), b')
               | Returns (Inr spaceName) \<Rightarrow> Continue spaceName) (\<lambda>spaceName.
      andThen (case cfCert of
                 None \<Rightarrow> Return (Panics, b')
               | Some c \<Rightarrow> Continue c) (\<lambda>c.
      let au = \<lparr>InternalData =
                   [''role'' \<mapsto> IString roleName,
                    ''instance_id'' \<mapsto> IString (InstanceID c),
                    ''ip_address'' \<mapsto> IString (IPAddress c)],
                DisplayName = InstanceID c,
                Alias = Some \<lparr>alias_Name = AppID c,
                              Metadata =
                                [''org_id'' \<mapsto> OrgID c,
                                 ''app_id'' \<mapsto> AppID c,
                                 ''space_id'' \<mapsto> SpaceID c,
                                 ''org_name'' \<mapsto> orgName,
                                 ''app_name'' \<mapsto> appName,
                                 ''space_name'' \<mapsto> spaceName]\<rparr>,
                Policies = [], TTL = 0, MaxTTL = 0, Period = 0\<rparr>
      in (Returns (Inr (AuthResponse (PopulateTokenAuth E role au))), b')
      ))))))))))))"

text \<open>
  The argument \<open>timeReceived\<close> is the value of \<^verbatim>\<open>time.Now().UTC()\<close> read in the
  first statement. The result is what the handler returns, with the state of the
  backend.
\<close>

definition operationLoginUpdate ::
  "env \<Rightarrow> backend \<Rightarrow> time \<Rightarrow> request \<Rightarrow> fieldData \<Rightarrow> handler_result \<times> backend" where
  "operationLoginUpdate E b timeReceived req d =
     (let roleName = data_Get d ''role'' in
      andThen (if roleName = []
               then Return (Returns (Inr (ErrorResponse (CHR 0x27 # ''role-name' is required''))), b)
               else Continue ()) (\<lambda>_.
      andThen (case getRole (Storage req) roleName of
                 Inl err \<Rightarrow> Return (Returns (Inl err), b)
               | Inr None \<Rightarrow> Return (Returns (Inl (Error ''no matching role'')), b)
               | Inr (Some role) \<Rightarrow> Continue role) (\<lambda>role.
      andThen (if length (TokenBoundCIDRs role) > 0
               then (case Connection req of
                       None \<Rightarrow> Return (Returns (Inl ErrPermissionDenied), b)
                     | Some conn \<Rightarrow>
                         if \<not> RemoteAddrIsOk E (RemoteAddr conn) (TokenBoundCIDRs role)
                         then Return (Returns (Inl ErrPermissionDenied), b)
                         else Continue ())
               else Continue ()) (\<lambda>_.
      let signature = data_Get d ''signature'' in
      andThen (if signature = []
               then Return (Returns (Inr (ErrorResponse (CHR 0x27 # ''signature' is required''))), b)
               else Continue ()) (\<lambda>_.
      let cfInstanceCertContents = data_Get d ''cf_instance_cert'' in
      andThen (if cfInstanceCertContents = []
               then Return (Returns (Inr (ErrorResponse
                              (CHR 0x27 # ''cf_instance_cert' is required''))), b)
               else Continue ()) (\<lambda>_.
      let signingTimeRaw = data_Get d ''signing_time'' in
      andThen (if signingTimeRaw = []
               then Return (Returns (Inr (ErrorResponse
                              (CHR 0x27 # ''signing_time' is required''))), b)
               else Continue ()) (\<lambda>_.
      andThen (case parseTime E signingTimeRaw of
                 Inl err \<Rightarrow> Return (Returns (Inr (ErrorResponse (Error_msg err))), b)
               | Inr signingTime \<Rightarrow> Continue signingTime) (\<lambda>signingTime.
      andThen (case getConfig (Storage req) of
                 Inl err \<Rightarrow> Return (Returns (Inl err), b)
               | Inr None \<Rightarrow>
                   Return (Returns (Inl (Error
                     ''no CA is configured for verifying client certificates'')), b)
               | Inr (Some config) \<Rightarrow> Continue config) (\<lambda>config.
      let oldestAllowableSigningTime =
            time_Add timeReceived (- 1 * LoginMaxSecNotBefore config);
          furthestFutureAllowableSigningTime =
            time_Add timeReceived (LoginMaxSecNotAfter config)
      in
      andThen (if time_Before signingTime oldestAllowableSigningTime
               then Return (Returns (Inr (ErrorResponse
                      (''request is too old; signed at '' @ time_String E signingTime
                       @ '' but received request at '' @ time_String E timeReceived
                       @ ''; allowable seconds old is ''
                       @ fmt_d (sint (duration_div (LoginMaxSecNotBefore config) Second))))), b)
               else Continue ()) (\<lambda>_.
      andThen (if time_After signingTime furthestFutureAllowableSigningTime
               then Return (Returns (Inr (ErrorResponse
                      (''request is too far in the future; signed at ''
                       @ time_String E signingTime
                       @ '' but received request at '' @ time_String E timeReceived
                       @ ''; allowable seconds in the future is ''
                       @ fmt_d (sint (duration_div (LoginMaxSecNotAfter config) Second))))), b)
               else Continue ()) (\<lambda>_.
      loginVerifyAndIssue E b req roleName role signature cfInstanceCertContents signingTime config
      )))))))))))"

subsection \<open>Renewal\<close>

text \<open>
  \<^verbatim>\<open>pathLoginRenew\<close>. \<^verbatim>\<open>req.Auth\<close>, \<^verbatim>\<open>req.Auth.Alias\<close> and \<^verbatim>\<open>req.Connection\<close> are
  pointers that the source reads without a check. The error of
  \<^verbatim>\<open>models.NewCFCertificate\<close> is assigned to \<^verbatim>\<open>err\<close> and the next statement assigns
  \<^verbatim>\<open>err\<close> again, so only the certificate of that pair is used. The response's
  \<^verbatim>\<open>Auth\<close> is the request's, with three fields assigned.
\<close>

definition pathLoginRenew :: "env \<Rightarrow> backend \<Rightarrow> request \<Rightarrow> handler_result \<times> backend" where
  "pathLoginRenew E b req =
     (andThen (case getConfig (Storage req) of
                 Inl err \<Rightarrow> Return (Returns (Inl err), b)
               | Inr None \<Rightarrow>
                   Return (Returns (Inl (Error
                     ''no configuration is available for reaching the CF API'')), b)
               | Inr (Some config) \<Rightarrow> Continue config) (\<lambda>config.
      andThen (case Auth req of
                 None \<Rightarrow> Return (Panics, b)
               | Some au \<Rightarrow> Continue au) (\<lambda>au.
      andThen (case getOrErr E ''role'' (MapIfc (InternalData au)) of
                 Inl err \<Rightarrow> Return (Returns (Inl err), b)
               | Inr roleName \<Rightarrow> Continue roleName) (\<lambda>roleName.
      andThen (case getRole (Storage req) roleName of
                 Inl err \<Rightarrow> Return (Returns (Inl err), b)
               | Inr None \<Rightarrow> Return (Returns (Inl (Error ''no matching role'')), b)
               | Inr (Some role) \<Rightarrow> Continue role) (\<lambda>role.
      andThen (case getOrErr E ''instance_id'' (MapIfc (InternalData au)) of
                 Inl err \<Rightarrow> Return (Returns (Inl err), b)
               | Inr instanceID \<Rightarrow> Continue instanceID) (\<lambda>instanceID.
      andThen (case getOrErr E ''ip_address'' (MapIfc (InternalData au)) of
                 Inl err \<Rightarrow> Return (Returns (Inl err), b)
               | Inr ipAddr \<Rightarrow> Continue ipAddr) (\<lambda>ipAddr.
      andThen (case Alias au of
                 None \<Rightarrow> Return (Panics, b)
               | Some al \<Rightarrow> Continue al) (\<lambda>al.
      andThen (case getOrErr E ''org_id'' (MapString (Metadata al)) of
                 Inl err \<Rightarrow> Return (Returns (Inl err), b)
               | Inr orgID \<Rightarrow> Continue orgID) (\<lambda>orgID.
      andThen (case getOrErr E ''space_id'' (MapString (Metadata al)) of
                 Inl err \<Rightarrow> Return (Returns (Inl err), b)
               | Inr spaceID \<Rightarrow> Continue spaceID) (\<lambda>spaceID.
      andThen (case getOrErr E ''app_id'' (MapString (Metadata al)) of
                 Inl err \<Rightarrow> Return (Returns (Inl err), b)
               | Inr appID \<Rightarrow> Continue appID) (\<lambda>appID.
      let cfCert = fst (NewCFCertificate E instanceID orgID spaceID appID ipAddr) in
      andThen (case fst (getCFClientOrRefresh E b config) of
                 Inl err \<Rightarrow>
                   Return (Returns (Inr (ErrorResponse (Error_msg err))),
                           snd (getCFClientOrRefresh E b config))
               | Inr cl \<Rightarrow> Continue (cl, snd (getCFClientOrRefresh E b config))) (\<lambda>(cl, b').
      andThen (case Connection req of
                 None \<Rightarrow> Return (Panics, b')
               | Some conn \<Rightarrow> Continue (RemoteAddr conn)) (\<lambda>remoteAddr.
      andThen (case validate E cl role cfCert remoteAddr of
                 Panics \<Rightarrow> Return (Panics, b')
               | Returns (Some err) \<Rightarrow>
                   Return (Returns (Inr (ErrorResponse (Error_msg err))),
                           b'\<lparr>cfClientTainted := True\<rparr>)
               | Returns None \<Rightarrow> Continue ()) (\<lambda>_.
      (Returns (Inr (AuthResponse
         (au\<lparr>TTL := TokenTTL role, MaxTTL := TokenMaxTTL role, Period := TokenPeriod role\<rparr>))),
       b')
      ))))))))))))))"

subsection \<open>Example values\<close>

text \<open>
  A role, a configuration, a storage holding both, a CF client whose records agree with
  the certificate \<open>ex_cert\<close>, and collaborators that accept one signature and one
  signing time. The theorems below are instantiated with them.
\<close>

definition ex_role :: roleEntry where
  "ex_role = \<lparr>BoundAppIDs = [''app-1''], BoundSpaceIDs = [], BoundOrgIDs = [],
     BoundInstanceIDs = [], DisableIPMatching = False, TokenBoundCIDRs = [],
     TokenTTL = 3600000000000, TokenMaxTTL = 7200000000000, TokenPeriod = 0\<rparr>"

definition ex_config :: configuration where
  "ex_config = \<lparr>IdentityCACertificates = [''ca''],
     LoginMaxSecNotBefore = 300000000000, LoginMaxSecNotAfter = 60000000000\<rparr>"

definition ex_storage :: storage where
  "ex_storage = \<lparr>getRole = (\<lambda>n. if n = ''web'' then Inr (Some ex_role)
                               else if n = ''internal''
                               then Inr (Some (ex_role\<lparr>TokenBoundCIDRs := [''10.0.0.0/8'']\<rparr>))
                               else Inr None),
                  getConfig = Inr (Some ex_config)\<rparr>"

definition ex_cert :: cFCertificate where
  "ex_cert = \<lparr>InstanceID = ''i-1'', AppID = ''app-1'', OrgID = ''org-1'', SpaceID = ''space-1'',
     IPAddress = ''10.0.0.5''\<rparr>"

definition ex_client :: client where
  "ex_client = \<lparr>AppByGuid = (\<lambda>g. Inr \<lparr>app_Guid = g, app_Name = ''web-app'',
                                        app_SpaceGuid = ''space-1'', app_Instances = 2\<rparr>),
                 GetOrgByGuid = (\<lambda>g. Inr \<lparr>org_Guid = g, org_Name = ''org''\<rparr>),
                 GetSpaceByGuid = (\<lambda>g. Inr \<lparr>space_Guid = g, space_Name = ''space'',
                                             space_OrganizationGuid = ''org-1''\<rparr>)\<rparr>"

definition ex_env :: env where
  "ex_env = \<lparr>RemoteAddrIsOk = (\<lambda>addr cidrs. addr = ''10.0.0.5''),
     ParseIP = (\<lambda>s. if s = ''10.0.0.5'' then v4InV6Prefix @ [10, 0, 0, 5]
                     else if s = ''10.0.0.6'' then v4InV6Prefix @ [10, 0, 0, 6] else []),
     time_Parse = (\<lambda>layout s. if layout = ''2006-01-02T15:04:05Z'' \<and> s = ''1970-01-01T00:16:40Z''
                               then Inr 1000000000000 else Inl (Error ''cannot parse'')),
     TimeFormat = ''2006-01-02T15:04:05Z'',
     BashTimeFormat = ''Mon Jan 2 15:04:05 MST 2006'',
     time_String = fmt_d,
     fmt_q = (\<lambda>s. [CHR 0x22] @ s @ [CHR 0x22]),
     ExtractCertificates = (\<lambda>c. if c = ''pem'' then Inr (''intermediate'', ''identity'')
                                  else Inl (Error ''no certificates'')),
     Verify = (\<lambda>sg sd. if sg = ''sig'' then Inr ''identity'' else Inl (Error ''bad signature'')),
     Validate = (\<lambda>cas ic idc sc. if idc = sc then None else Some (Error ''untrusted'')),
     NewCFCertificateFromx509 = (\<lambda>c. (Some ex_cert, None)),
     NewCFCertificate = (\<lambda>i og s a p.
        (Some \<lparr>InstanceID = i, AppID = a, OrgID = og, SpaceID = s, IPAddress = p\<rparr>, None)),
     getCFClientOrRefresh = (\<lambda>b c. (Inr ex_client, b)),
     PopulateTokenAuth = (\<lambda>r a. a\<lparr>TTL := TokenTTL r, MaxTTL := TokenMaxTTL r,
                                      Period := TokenPeriod r\<rparr>)\<rparr>"

definition ex_backend :: backend where
  "ex_backend = \<lparr>cfClientTainted = False\<rparr>"

definition ex_data :: fieldData where
  "ex_data = [''role'' \<mapsto> ''web'', ''signature'' \<mapsto> ''sig'', ''cf_instance_cert'' \<mapsto> ''pem'',
              ''signing_time'' \<mapsto> ''1970-01-01T00:16:40Z'']"

definition ex_auth :: auth where
  "ex_auth = \<lparr>InternalData = [''role'' \<mapsto> IString ''web'', ''instance_id'' \<mapsto> IString ''i-1'',
                               ''ip_address'' \<mapsto> IString ''10.0.0.5''],
     DisplayName = ''i-1'',
     Alias = Some \<lparr>alias_Name = ''app-1'',
                   Metadata = [''org_id'' \<mapsto> ''org-1'', ''app_id'' \<mapsto> ''app-1'',
                               ''space_id'' \<mapsto> ''space-1''] \<rparr>,
     Policies = [''default''], TTL = 60000000000, MaxTTL = 0, Period = 0\<rparr>"

definition ex_req :: "string option \<Rightarrow> auth option \<Rightarrow> request" where
  "ex_req addr au = \<lparr>Storage = ex_storage,
      Connection = map_option (\<lambda>a. \<lparr>RemoteAddr = a\<rparr>) addr, Auth = au\<rparr>"

section \<open>Auxiliary facts\<close>

subsection \<open>Lists, strings and durations\<close>

lemma StrListContains_iff: "StrListContains xs x = (x \<in> set xs)"
  by (induction xs) auto

lemma strings_Split_nonempty: "strings_Split s sep \<noteq> []"
  by (induction s) (auto split: list.splits)

lemma strings_Split_first: "strings_Split s sep ! 0 = takeWhile (\<lambda>c. c \<noteq> sep) s"
  by (induction s) (auto split: list.splits simp: strings_Split_nonempty)

lemma matchesIPAddress_takeWhile:
  "matchesIPAddress E remoteAddr certIP
     = IP_Equal certIP (ParseIP E (takeWhile (\<lambda>c. c \<noteq> CHR ''/'') remoteAddr))"
  by (simp add: matchesIPAddress_def Let_def strings_Split_first)

lemma sint_neg_duration:
  fixes d :: duration
  assumes "0 \<le> sint d"
  shows "sint (- d) = - sint d"
proof -
  have lt: "sint d < 2 ^ 63"
    using sint_lt [of d] by simp
  have e: "- d = (word_of_int (- sint d) :: duration)"
    by simp
  have "sint (- d) = sint (word_of_int (- sint d) :: duration)"
    by (subst e) (rule refl)
  also have "\<dots> = signed_take_bit 63 (- sint d)"
    unfolding sint_sbintrunc' by simp
  also have "\<dots> = - sint d"
    using assms lt by (intro signed_take_bit_int_eq_self) auto
  finally show ?thesis .
qed

lemma sint_Second: "sint Second = 1000000000"
  by (simp add: Second_def)

lemma sint_duration_div_Second:
  fixes d :: duration
  assumes "0 \<le> sint d"
  shows "sint (duration_div d Second) = sint d div 1000000000"
proof -
  have lt: "sint d < 2 ^ 63"
    using sint_lt [of d] by simp
  have q: "sint d sdiv 1000000000 = sint d div 1000000000"
    using assms by (simp add: signed_divide_int_def sgn_if)
  have "0 \<le> sint d div 1000000000"
    using assms by simp
  moreover have "sint d div 1000000000 \<le> sint d"
    using assms by (metis div_by_1 zdiv_mono2 zero_less_one one_le_numeral)
  ultimately have "signed_take_bit 63 (sint d div 1000000000) = sint d div 1000000000"
    using lt by (intro signed_take_bit_int_eq_self) auto
  then show ?thesis
    by (simp add: duration_div_def sint_Second q sint_sbintrunc')
qed

lemma not_a_string_sublist:
  "sublist ''not a string'' (''unable to retrieve '' @ q @ '' during renewal, not a string'')"
  unfolding sublist_def
  by (rule exI [of _ "''unable to retrieve '' @ q @ '' during renewal, ''"], rule exI [of _ "[]"])
    simp

subsection \<open>The handlers, statement by statement\<close>

text \<open>A login that passes every statement before the certificates are read.\<close>

lemma login_to_verify:
  assumes "data_Get d ''role'' \<noteq> []"
    and "getRole (Storage req) (data_Get d ''role'') = Inr (Some role)"
    and "TokenBoundCIDRs role = []
         \<or> (\<exists>conn. Connection req = Some conn
               \<and> RemoteAddrIsOk E (RemoteAddr conn) (TokenBoundCIDRs role))"
    and "data_Get d ''signature'' \<noteq> []"
    and "data_Get d ''cf_instance_cert'' \<noteq> []"
    and "data_Get d ''signing_time'' \<noteq> []"
    and "parseTime E (data_Get d ''signing_time'') = Inr t"
    and "getConfig (Storage req) = Inr (Some config)"
    and "\<not> time_Before t (time_Add now (- 1 * LoginMaxSecNotBefore config))"
    and "\<not> time_After t (time_Add now (LoginMaxSecNotAfter config))"
  shows "operationLoginUpdate E b now req d
         = loginVerifyAndIssue E b req (data_Get d ''role'') role (data_Get d ''signature'')
             (data_Get d ''cf_instance_cert'') t config"
  using assms by (auto simp add: operationLoginUpdate_def andThen_def Let_def)

text \<open>With no connection, the part of the login after the time window.\<close>

lemma loginVerifyAndIssue_nil_connection:
  assumes "Connection req = None"
    and "ExtractCertificates E ce = Inr (ic, idc)"
    and "Verify E sg \<lparr>SigningTime = t, Role = rn, CFInstanceCertContents = ce\<rparr> = Inr sc"
    and "Validate E (IdentityCACertificates config) ic idc sc = None"
    and "NewCFCertificateFromx509 E sc = (cfCert, None)"
    and "getCFClientOrRefresh E b config = (Inr cl, b')"
  shows "loginVerifyAndIssue E b req rn role sg ce t config = (Panics, b')"
  using assms by (simp add: loginVerifyAndIssue_def andThen_def)

lemma loginVerifyAndIssue_nil_connection_no_auth:
  assumes "Connection req = None"
  shows "fst (loginVerifyAndIssue E b req rn role sg ce t config) \<noteq> Returns (Inr (AuthResponse a))"
  using assms
  by (simp add: loginVerifyAndIssue_def andThen_def split: sum.splits option.splits prod.splits)

lemma operationLoginUpdate_nil_connection_no_auth:
  assumes "Connection req = None"
  shows "fst (operationLoginUpdate E b now req d) \<noteq> Returns (Inr (AuthResponse a))"
  using assms loginVerifyAndIssue_nil_connection_no_auth [OF assms]
  by (simp add: operationLoginUpdate_def andThen_def Let_def split: sum.splits option.splits)

text \<open>A renewal in which one of the six extractions fails.\<close>

lemma renew_hard_if_field_fails:
  assumes "Auth req = Some au"
    and "(\<exists>e. getOrErr E ''role'' (MapIfc (InternalData au)) = Inl e)
       \<or> (\<exists>e. getOrErr E ''instance_id'' (MapIfc (InternalData au)) = Inl e)
       \<or> (\<exists>e. getOrErr E ''ip_address'' (MapIfc (InternalData au)) = Inl e)
       \<or> (\<exists>al. Alias au = Some al \<and>
            ((\<exists>e. getOrErr E ''org_id'' (MapString (Metadata al)) = Inl e)
           \<or> (\<exists>e. getOrErr E ''space_id'' (MapString (Metadata al)) = Inl e)
           \<or> (\<exists>e. getOrErr E ''app_id'' (MapString (Metadata al)) = Inl e)))"
  shows "\<exists>err. pathLoginRenew E b req = (Returns (Inl err), b)"
  using assms unfolding pathLoginRenew_def andThen_def
  by (auto split: sum.splits option.splits)

text \<open>A renewal that passes every statement before the call of \<^verbatim>\<open>validate\<close>.\<close>

lemma renew_to_validate:
  assumes "getConfig (Storage req) = Inr (Some config)"
    and "Auth req = Some au"
    and "getOrErr E ''role'' (MapIfc (InternalData au)) = Inr roleName"
    and "getRole (Storage req) roleName = Inr (Some role)"
    and "getOrErr E ''instance_id'' (MapIfc (InternalData au)) = Inr instanceID"
    and "getOrErr E ''ip_address'' (MapIfc (InternalData au)) = Inr ipAddr"
    and "Alias au = Some al"
    and "getOrErr E ''org_id'' (MapString (Metadata al)) = Inr orgID"
    and "getOrErr E ''space_id'' (MapString (Metadata al)) = Inr spaceID"
    and "getOrErr E ''app_id'' (MapString (Metadata al)) = Inr appID"
    and "getCFClientOrRefresh E b config = (Inr cl, b')"
    and "Connection req = Some conn"
  shows "pathLoginRenew E b req =
     (case validate E cl role (fst (NewCFCertificate E instanceID orgID spaceID appID ipAddr))
             (RemoteAddr conn) of
        Panics \<Rightarrow> (Panics, b')
      | Returns (Some err) \<Rightarrow>
          (Returns (Inr (ErrorResponse (Error_msg err))), b'\<lparr>cfClientTainted := True\<rparr>)
      | Returns None \<Rightarrow>
          (Returns (Inr (AuthResponse
             (au\<lparr>TTL := TokenTTL role, MaxTTL := TokenMaxTTL role, Period := TokenPeriod role\<rparr>))),
           b'))"
  using assms unfolding pathLoginRenew_def andThen_def
  by (simp add: Let_def split: go.splits option.splits)

text \<open>Neither \<^verbatim>\<open>getOrErr\<close> nor \<^verbatim>\<open>validate\<close> calls \<^verbatim>\<open>models.NewCFCertificate\<close>.\<close>

lemma getOrErr_env: "getOrErr (E\<lparr>NewCFCertificate := f\<rparr>) k c = getOrErr E k c"
  by (cases c) (simp_all add: Let_def split: option.splits)

lemma validate_env: "validate (E\<lparr>NewCFCertificate := f\<rparr>) cl role c a = validate E cl role c a"
  by (cases c) (simp_all add: validate_def matchesIPAddress_def)

subsection \<open>The example values, evaluated\<close>

lemma fmt_d_300: "fmt_d 300 = ''300''"
  by code_simp

lemma ex_data_Get:
  "data_Get ex_data ''role'' = ''web''"
  "data_Get ex_data ''signature'' = ''sig''"
  "data_Get ex_data ''cf_instance_cert'' = ''pem''"
  "data_Get ex_data ''signing_time'' = ''1970-01-01T00:16:40Z''"
  by (simp_all add: data_Get_def ex_data_def)

lemma ex_parseTime: "parseTime ex_env ''1970-01-01T00:16:40Z'' = Inr 1000000000000"
  by (simp add: parseTime_def ex_env_def)

lemma ex_storage_simps:
  "getRole (Storage (ex_req addr au)) ''web'' = Inr (Some ex_role)"
  "getRole (Storage (ex_req addr au)) ''internal''
     = Inr (Some (ex_role\<lparr>TokenBoundCIDRs := [''10.0.0.0/8'']\<rparr>))"
  "getRole (Storage (ex_req addr au)) ''missing'' = Inr None"
  "getConfig (Storage (ex_req addr au)) = Inr (Some ex_config)"
  by (simp_all add: ex_req_def ex_storage_def)

lemma ex_req_simps:
  "Connection (ex_req None au) = None"
  "Connection (ex_req (Some a) au) = Some \<lparr>RemoteAddr = a\<rparr>"
  "Auth (ex_req addr au) = au"
  by (simp_all add: ex_req_def)

lemma ex_tolerances:
  "sint (LoginMaxSecNotBefore ex_config) = 300000000000"
  "sint (LoginMaxSecNotAfter ex_config) = 60000000000"
  by (simp_all add: ex_config_def)

lemma ex_getOrErr_internal:
  "getOrErr ex_env ''role'' (MapIfc (InternalData ex_auth)) = Inr ''web''"
  "getOrErr ex_env ''instance_id'' (MapIfc (InternalData ex_auth)) = Inr ''i-1''"
  "getOrErr ex_env ''ip_address'' (MapIfc (InternalData ex_auth)) = Inr ''10.0.0.5''"
  by (simp_all add: ex_auth_def)

lemma ex_getOrErr_alias:
  "Alias ex_auth = Some al \<Longrightarrow> getOrErr ex_env ''org_id'' (MapString (Metadata al)) = Inr ''org-1''"
  "Alias ex_auth = Some al \<Longrightarrow> getOrErr ex_env ''space_id'' (MapString (Metadata al)) = Inr ''space-1''"
  "Alias ex_auth = Some al \<Longrightarrow> getOrErr ex_env ''app_id'' (MapString (Metadata al)) = Inr ''app-1''"
  by (auto simp add: ex_auth_def)

lemma ex_client_refresh: "getCFClientOrRefresh ex_env b c = (Inr ex_client, b)"
  by (simp add: ex_env_def)

lemma ex_NewCFCertificate:
  "fst (NewCFCertificate ex_env i og s a p)
     = Some \<lparr>InstanceID = i, AppID = a, OrgID = og, SpaceID = s, IPAddress = p\<rparr>"
  by (simp add: ex_env_def)

lemma ex_matches:
  "matchesIPAddress ex_env ''10.0.0.5/32'' (ParseIP ex_env ''10.0.0.5'')"
  "\<not> matchesIPAddress ex_env ''10.0.0.6'' (ParseIP ex_env ''10.0.0.5'')"
  by (simp_all add: matchesIPAddress_takeWhile IP_Equal_def ex_env_def v4InV6Prefix_def)

lemma ex_validate_ok:
  "validate ex_env ex_client ex_role
     (Some \<lparr>InstanceID = ''i-1'', AppID = ''app-1'', OrgID = ''org-1'', SpaceID = ''space-1'',
            IPAddress = ''10.0.0.5''\<rparr>) ''10.0.0.5/32'' = Returns None"
  by (simp add: validate_def ex_matches meetsBoundConstraints_def ex_role_def ex_client_def)

lemma ex_validate_fails:
  "validate ex_env ex_client ex_role
     (Some \<lparr>InstanceID = ''i-1'', AppID = ''app-1'', OrgID = ''org-1'', SpaceID = ''space-1'',
            IPAddress = ''10.0.0.5''\<rparr>) ''10.0.0.6''
   = Returns (Some (Error ''no matching IP address''))"
  by (simp add: validate_def ex_matches ex_role_def)

section \<open>The claims\<close>

subsection \<open>C1: a role name that resolves to no role\<close>

text \<open>
  C1, as amended. When the role name is not empty and \<^verbatim>\<open>getRole\<close> finds no role under
  it, \<^verbatim>\<open>operationLoginUpdate\<close> returns \<^verbatim>\<open>nil, errors.New("no matching role")\<close>: a
  hard error with the message "no matching role", and no response. It is not a
  \<^verbatim>\<open>logical.ErrorResponse\<close>, the soft error that the caller sees. The state of the
  backend is as it was.
\<close>

theorem login_missing_role_hard_error:
  assumes "data_Get d ''role'' \<noteq> []"
    and "getRole (Storage req) (data_Get d ''role'') = Inr None"
  shows "operationLoginUpdate E b now req d = (Returns (Inl (Error ''no matching role'')), b)"
  using assms by (simp add: operationLoginUpdate_def andThen_def)

text \<open>An instance: the login of a role named "missing", which the example storage lacks.\<close>

theorem login_missing_role_hard_error_witness:
  "operationLoginUpdate ex_env ex_backend 1000000000000 (ex_req (Some ''10.0.0.5'') None)
     (ex_data(''role'' \<mapsto> ''missing''))
   = (Returns (Inl (Error ''no matching role'')), ex_backend)"
proof -
  have g: "data_Get (ex_data(''role'' \<mapsto> ''missing'')) ''role'' = ''missing''"
    by (simp add: data_Get_def)
  have h1: "data_Get (ex_data(''role'' \<mapsto> ''missing'')) ''role'' \<noteq> []"
    by (simp add: g)
  have h2: "getRole (Storage (ex_req (Some ''10.0.0.5'') None))
              (data_Get (ex_data(''role'' \<mapsto> ''missing'')) ''role'') = Inr None"
    by (simp add: g ex_storage_simps)
  show ?thesis
    by (rule login_missing_role_hard_error [OF h1 h2])
qed

text \<open>
  C1 as it is stated fails on the same login: what the handler returns is not the soft
  error response with the message "no matching role".
\<close>

theorem login_missing_role_not_soft:
  "fst (operationLoginUpdate ex_env ex_backend 1000000000000 (ex_req (Some ''10.0.0.5'') None)
          (ex_data(''role'' \<mapsto> ''missing'')))
     \<noteq> Returns (Inr (ErrorResponse ''no matching role''))"
  by (simp add: operationLoginUpdate_def andThen_def data_Get_def ex_storage_simps)

subsection \<open>C2: the time window\<close>

text \<open>
  C2. Take a login that reaches the time window check: the role is found, the bound
  CIDRs admit the request, the three other fields are present, the signing time parses
  to \<open>t\<close> and a configuration is stored; \<open>now\<close> is the time read on entry, and both
  tolerances are non-negative. Then:
  \<^item> if \<open>now - before \<le> t \<le> now + after\<close>, both bounds included, the check passes and the
    handler goes on to read the certificates;
  \<^item> if \<open>t < now - before\<close>, the handler returns the soft error "request is too old", whose
    message ends with the tolerance \<open>before\<close> in whole seconds;
  \<^item> if \<open>now + after < t\<close>, it returns the soft error "request is too far in the future",
    whose message ends with the tolerance \<open>after\<close> in whole seconds.
\<close>

theorem login_time_window:
  assumes "data_Get d ''role'' \<noteq> []"
    and "getRole (Storage req) (data_Get d ''role'') = Inr (Some role)"
    and "TokenBoundCIDRs role = []
         \<or> (\<exists>conn. Connection req = Some conn
               \<and> RemoteAddrIsOk E (RemoteAddr conn) (TokenBoundCIDRs role))"
    and "data_Get d ''signature'' \<noteq> []"
    and "data_Get d ''cf_instance_cert'' \<noteq> []"
    and "data_Get d ''signing_time'' \<noteq> []"
    and "parseTime E (data_Get d ''signing_time'') = Inr t"
    and "getConfig (Storage req) = Inr (Some config)"
    and "0 \<le> sint (LoginMaxSecNotBefore config)"
    and "0 \<le> sint (LoginMaxSecNotAfter config)"
  shows "(now - sint (LoginMaxSecNotBefore config) \<le> t
            \<and> t \<le> now + sint (LoginMaxSecNotAfter config)
           \<longrightarrow> operationLoginUpdate E b now req d
               = loginVerifyAndIssue E b req (data_Get d ''role'') role (data_Get d ''signature'')
                   (data_Get d ''cf_instance_cert'') t config)
       \<and> (t < now - sint (LoginMaxSecNotBefore config)
           \<longrightarrow> operationLoginUpdate E b now req d
               = (Returns (Inr (ErrorResponse
                    (''request is too old; signed at '' @ time_String E t
                     @ '' but received request at '' @ time_String E now
                     @ ''; allowable seconds old is ''
                     @ fmt_d (sint (LoginMaxSecNotBefore config) div 1000000000)))), b))
       \<and> (now + sint (LoginMaxSecNotAfter config) < t
           \<longrightarrow> operationLoginUpdate E b now req d
               = (Returns (Inr (ErrorResponse
                    (''request is too far in the future; signed at '' @ time_String E t
                     @ '' but received request at '' @ time_String E now
                     @ ''; allowable seconds in the future is ''
                     @ fmt_d (sint (LoginMaxSecNotAfter config) div 1000000000)))), b))"
  using assms
  by (auto simp add: operationLoginUpdate_def andThen_def Let_def time_Add_def time_Before_def
        time_After_def sint_neg_duration sint_duration_div_Second)

text \<open>
  Instances, with tolerances of 300 and 60 seconds and a signing time of 1000 seconds:
  a request received exactly 300 seconds later and one received exactly 60 seconds
  earlier pass the check, and one received 600 seconds later is too old.
\<close>

theorem login_time_window_witness:
  "operationLoginUpdate ex_env ex_backend 1300000000000 (ex_req (Some ''10.0.0.5'') None) ex_data
     = loginVerifyAndIssue ex_env ex_backend (ex_req (Some ''10.0.0.5'') None) ''web'' ex_role
         ''sig'' ''pem'' 1000000000000 ex_config
   \<and> operationLoginUpdate ex_env ex_backend 940000000000 (ex_req (Some ''10.0.0.5'') None) ex_data
     = loginVerifyAndIssue ex_env ex_backend (ex_req (Some ''10.0.0.5'') None) ''web'' ex_role
         ''sig'' ''pem'' 1000000000000 ex_config
   \<and> operationLoginUpdate ex_env ex_backend 1600000000000 (ex_req (Some ''10.0.0.5'') None) ex_data
     = (Returns (Inr (ErrorResponse
          (''request is too old; signed at '' @ time_String ex_env 1000000000000
           @ '' but received request at '' @ time_String ex_env 1600000000000
           @ ''; allowable seconds old is 300''))),
        ex_backend)"
proof -
  let ?req = "ex_req (Some ''10.0.0.5'') None"
  have h1: "data_Get ex_data ''role'' \<noteq> []"
    and h4: "data_Get ex_data ''signature'' \<noteq> []"
    and h5: "data_Get ex_data ''cf_instance_cert'' \<noteq> []"
    and h6: "data_Get ex_data ''signing_time'' \<noteq> []"
    by (simp_all add: ex_data_Get)
  have h2: "getRole (Storage ?req) (data_Get ex_data ''role'') = Inr (Some ex_role)"
    by (simp add: ex_data_Get ex_storage_simps)
  have h3: "TokenBoundCIDRs ex_role = []
         \<or> (\<exists>conn. Connection ?req = Some conn
               \<and> RemoteAddrIsOk ex_env (RemoteAddr conn) (TokenBoundCIDRs ex_role))"
    by (simp add: ex_role_def)
  have h7: "parseTime ex_env (data_Get ex_data ''signing_time'') = Inr 1000000000000"
    by (simp add: ex_data_Get ex_parseTime)
  have h8: "getConfig (Storage ?req) = Inr (Some ex_config)"
    by (simp add: ex_storage_simps)
  have h9: "0 \<le> sint (LoginMaxSecNotBefore ex_config)"
    and h10: "0 \<le> sint (LoginMaxSecNotAfter ex_config)"
    by (simp_all add: ex_tolerances)
  note W = login_time_window [OF h1 h2 h3 h4 h5 h6 h7 h8 h9 h10]
  from W [of 1300000000000 ex_backend] W [of 940000000000 ex_backend]
    W [of 1600000000000 ex_backend]
  show ?thesis
    by (simp add: ex_data_Get ex_tolerances fmt_d_300)
qed

subsection \<open>C3: bound CIDRs\<close>

text \<open>
  C3. When the role that the request names has bound CIDRs, and the request either
  carries no connection or has a remote address that \<^verbatim>\<open>cidrutil.RemoteAddrIsOk\<close>
  rejects for those CIDRs, \<^verbatim>\<open>operationLoginUpdate\<close> returns the hard error
  \<^verbatim>\<open>logical.ErrPermissionDenied\<close>. It does so whatever the fields \<^verbatim>\<open>signature\<close>,
  \<^verbatim>\<open>cf_instance_cert\<close> and \<^verbatim>\<open>signing_time\<close> hold, present or not, and whatever the
  configuration and the verifiers are: the check comes before all of them.
\<close>

theorem login_cidr_permission_denied:
  assumes "data_Get d ''role'' \<noteq> []"
    and "getRole (Storage req) (data_Get d ''role'') = Inr (Some role)"
    and "TokenBoundCIDRs role \<noteq> []"
    and "Connection req = None
         \<or> (\<exists>conn. Connection req = Some conn
               \<and> \<not> RemoteAddrIsOk E (RemoteAddr conn) (TokenBoundCIDRs role))"
  shows "operationLoginUpdate E b now req
           (d(''signature'' := sg, ''cf_instance_cert'' := ce, ''signing_time'' := st))
         = (Returns (Inl ErrPermissionDenied), b)"
  using assms by (auto simp add: operationLoginUpdate_def andThen_def data_Get_def)

text \<open>
  Instances: a role bound to 10.0.0.0/8, asked for from 192.168.1.1 and asked for with
  no connection, in both cases without a signature and a signing time.
\<close>

theorem login_cidr_permission_denied_witness:
  "operationLoginUpdate ex_env ex_backend 1000000000000 (ex_req (Some ''192.168.1.1'') None)
     ((ex_data(''role'' \<mapsto> ''internal''))
        (''signature'' := None, ''cf_instance_cert'' := Some ''pem'', ''signing_time'' := None))
     = (Returns (Inl ErrPermissionDenied), ex_backend)
   \<and> operationLoginUpdate ex_env ex_backend 1000000000000 (ex_req None None)
     ((ex_data(''role'' \<mapsto> ''internal''))
        (''signature'' := None, ''cf_instance_cert'' := Some ''pem'', ''signing_time'' := None))
     = (Returns (Inl ErrPermissionDenied), ex_backend)"
proof -
  let ?d = "ex_data(''role'' \<mapsto> ''internal'')"
  let ?role = "ex_role\<lparr>TokenBoundCIDRs := [''10.0.0.0/8'']\<rparr>"
  have g: "data_Get ?d ''role'' = ''internal''"
    by (simp add: data_Get_def)
  have h1: "data_Get ?d ''role'' \<noteq> []"
    by (simp add: g)
  have h2: "getRole (Storage (ex_req addr None)) (data_Get ?d ''role'') = Inr (Some ?role)" for addr
    by (simp add: g ex_storage_simps)
  have h3: "TokenBoundCIDRs ?role \<noteq> []"
    by simp
  have h4: "Connection (ex_req (Some ''192.168.1.1'') None) = None
         \<or> (\<exists>conn. Connection (ex_req (Some ''192.168.1.1'') None) = Some conn
               \<and> \<not> RemoteAddrIsOk ex_env (RemoteAddr conn) (TokenBoundCIDRs ?role))"
    by (simp add: ex_req_simps ex_env_def)
  have h5: "Connection (ex_req None None) = None
         \<or> (\<exists>conn. Connection (ex_req None None) = Some conn
               \<and> \<not> RemoteAddrIsOk ex_env (RemoteAddr conn) (TokenBoundCIDRs ?role))"
    by (simp add: ex_req_simps)
  show ?thesis
    using login_cidr_permission_denied [OF h1 h2 h3 h4]
      login_cidr_permission_denied [OF h1 h2 h3 h5]
    by simp
qed

subsection \<open>C4: renewal with a required field missing\<close>

text \<open>
  C4. Take a renewal whose request carries its \<^verbatim>\<open>Auth\<close>.
  \<^item> If one of \<^verbatim>\<open>role\<close>, \<^verbatim>\<open>instance_id\<close>, \<^verbatim>\<open>ip_address\<close> is absent from the internal
    data, or one of \<^verbatim>\<open>org_id\<close>, \<^verbatim>\<open>space_id\<close>, \<^verbatim>\<open>app_id\<close> is absent from the metadata of
    the alias, \<^verbatim>\<open>pathLoginRenew\<close> returns a hard error and no response.
  \<^item> If \<^verbatim>\<open>instance_id\<close> is in the internal data and holds the empty string,
    \<^verbatim>\<open>pathLoginRenew\<close> returns a hard error too; \<^verbatim>\<open>getOrErr\<close> fails on that field with a
    message that contains "not a string", and this is the error of the renewal once the
    configuration is read and the role is extracted and found.
\<close>

theorem renew_missing_field_hard_error:
  assumes "Auth req = Some au"
  shows "((InternalData au ''role'' = None
           \<or> InternalData au ''instance_id'' = None
           \<or> InternalData au ''ip_address'' = None
           \<or> (\<exists>al. Alias au = Some al
                 \<and> (Metadata al ''org_id'' = None
                    \<or> Metadata al ''space_id'' = None
                    \<or> Metadata al ''app_id'' = None)))
          \<longrightarrow> (\<exists>err. pathLoginRenew E b req = (Returns (Inl err), b)))
       \<and> (InternalData au ''instance_id'' = Some (IString [])
          \<longrightarrow> (\<exists>err. pathLoginRenew E b req = (Returns (Inl err), b))
              \<and> getOrErr E ''instance_id'' (MapIfc (InternalData au))
                  = Inl (Error (''unable to retrieve '' @ fmt_q E ''instance_id''
                                  @ '' during renewal, not a string''))
              \<and> sublist ''not a string''
                  (''unable to retrieve '' @ fmt_q E ''instance_id''
                     @ '' during renewal, not a string'')
              \<and> (getConfig (Storage req) = Inr (Some config)
                    \<and> getOrErr E ''role'' (MapIfc (InternalData au)) = Inr roleName
                    \<and> getRole (Storage req) roleName = Inr (Some role)
                  \<longrightarrow> pathLoginRenew E b req
                      = (Returns (Inl (Error (''unable to retrieve '' @ fmt_q E ''instance_id''
                                                @ '' during renewal, not a string''))), b)))"
proof (intro conjI impI)
  assume "InternalData au ''role'' = None
           \<or> InternalData au ''instance_id'' = None
           \<or> InternalData au ''ip_address'' = None
           \<or> (\<exists>al. Alias au = Some al
                 \<and> (Metadata al ''org_id'' = None
                    \<or> Metadata al ''space_id'' = None
                    \<or> Metadata al ''app_id'' = None))"
  then have "(\<exists>e. getOrErr E ''role'' (MapIfc (InternalData au)) = Inl e)
       \<or> (\<exists>e. getOrErr E ''instance_id'' (MapIfc (InternalData au)) = Inl e)
       \<or> (\<exists>e. getOrErr E ''ip_address'' (MapIfc (InternalData au)) = Inl e)
       \<or> (\<exists>al. Alias au = Some al \<and>
            ((\<exists>e. getOrErr E ''org_id'' (MapString (Metadata al)) = Inl e)
           \<or> (\<exists>e. getOrErr E ''space_id'' (MapString (Metadata al)) = Inl e)
           \<or> (\<exists>e. getOrErr E ''app_id'' (MapString (Metadata al)) = Inl e)))"
    by auto
  then show "\<exists>err. pathLoginRenew E b req = (Returns (Inl err), b)"
    by (rule renew_hard_if_field_fails [OF assms])
next
  assume e: "InternalData au ''instance_id'' = Some (IString [])"
  then have f: "getOrErr E ''instance_id'' (MapIfc (InternalData au))
                  = Inl (Error (''unable to retrieve '' @ fmt_q E ''instance_id''
                                  @ '' during renewal, not a string''))"
    by simp
  then show "getOrErr E ''instance_id'' (MapIfc (InternalData au))
                  = Inl (Error (''unable to retrieve '' @ fmt_q E ''instance_id''
                                  @ '' during renewal, not a string''))" .
  from f show "\<exists>err. pathLoginRenew E b req = (Returns (Inl err), b)"
    by (intro renew_hard_if_field_fails [OF assms]) blast
  show "sublist ''not a string''
          (''unable to retrieve '' @ fmt_q E ''instance_id'' @ '' during renewal, not a string'')"
    by (rule not_a_string_sublist)
  assume "getConfig (Storage req) = Inr (Some config)
            \<and> getOrErr E ''role'' (MapIfc (InternalData au)) = Inr roleName
            \<and> getRole (Storage req) roleName = Inr (Some role)"
  with assms f show "pathLoginRenew E b req
      = (Returns (Inl (Error (''unable to retrieve '' @ fmt_q E ''instance_id''
                                @ '' during renewal, not a string''))), b)"
    unfolding pathLoginRenew_def andThen_def by simp
qed

text \<open>
  Instances: the example \<^verbatim>\<open>Auth\<close> with \<^verbatim>\<open>instance_id\<close> taken out of its internal data,
  and with \<^verbatim>\<open>instance_id\<close> set to the empty string.
\<close>

theorem renew_missing_field_hard_error_witness:
  "(\<exists>err. pathLoginRenew ex_env ex_backend
            (ex_req (Some ''10.0.0.5'')
               (Some (ex_auth\<lparr>InternalData := (InternalData ex_auth)(''instance_id'' := None)\<rparr>)))
          = (Returns (Inl err), ex_backend))
   \<and> pathLoginRenew ex_env ex_backend
        (ex_req (Some ''10.0.0.5'')
           (Some (ex_auth\<lparr>InternalData := (InternalData ex_auth)(''instance_id'' \<mapsto> IString [])\<rparr>)))
      = (Returns (Inl (Error (''unable to retrieve '' @ fmt_q ex_env ''instance_id''
                                @ '' during renewal, not a string''))), ex_backend)"
proof -
  let ?au1 = "ex_auth\<lparr>InternalData := (InternalData ex_auth)(''instance_id'' := None)\<rparr>"
  let ?au2 = "ex_auth\<lparr>InternalData := (InternalData ex_auth)(''instance_id'' \<mapsto> IString [])\<rparr>"
  have a1: "Auth (ex_req (Some ''10.0.0.5'') (Some ?au1)) = Some ?au1"
    and a2: "Auth (ex_req (Some ''10.0.0.5'') (Some ?au2)) = Some ?au2"
    by (simp_all add: ex_req_simps)
  have m1: "InternalData ?au1 ''instance_id'' = None"
    and m2: "InternalData ?au2 ''instance_id'' = Some (IString [])"
    by simp_all
  have c: "getConfig (Storage (ex_req (Some ''10.0.0.5'') (Some ?au2))) = Inr (Some ex_config)"
    and r: "getRole (Storage (ex_req (Some ''10.0.0.5'') (Some ?au2))) ''web'' = Inr (Some ex_role)"
    by (simp_all add: ex_storage_simps)
  have n: "getOrErr ex_env ''role'' (MapIfc (InternalData ?au2)) = Inr ''web''"
    by (simp add: ex_auth_def)
  from renew_missing_field_hard_error [OF a1, of ex_env ex_backend] m1
  have "\<exists>err. pathLoginRenew ex_env ex_backend (ex_req (Some ''10.0.0.5'') (Some ?au1))
               = (Returns (Inl err), ex_backend)"
    by blast
  moreover from renew_missing_field_hard_error
      [OF a2, of ex_env ex_backend ex_config "''web''" ex_role] m2 c r n
  have "pathLoginRenew ex_env ex_backend (ex_req (Some ''10.0.0.5'') (Some ?au2))
      = (Returns (Inl (Error (''unable to retrieve '' @ fmt_q ex_env ''instance_id''
                                @ '' during renewal, not a string''))), ex_backend)"
    by blast
  ultimately show ?thesis
    by blast
qed

subsection \<open>C5: renewal taints the client when validation fails\<close>

text \<open>
  C5. Take a renewal that reaches the call of \<^verbatim>\<open>validate\<close>: the configuration is
  stored, the six fields are extracted, the role is found, \<^verbatim>\<open>getCFClientOrRefresh\<close>
  gives a client and leaves the backend in the state \<open>b'\<close>, and the request carries a
  connection.
  \<^item> If \<^verbatim>\<open>validate\<close> returns an error, \<^verbatim>\<open>pathLoginRenew\<close> returns the soft error
    response with that error's message, and the backend's \<^verbatim>\<open>cfClientTainted\<close> is true.
  \<^item> If \<^verbatim>\<open>validate\<close> returns no error, the response carries the \<^verbatim>\<open>Auth\<close> of the request
    with \<^verbatim>\<open>TTL\<close>, \<^verbatim>\<open>MaxTTL\<close> and \<^verbatim>\<open>Period\<close> set to the role's values and nothing else
    changed, and the backend is in the state \<open>b'\<close>: the handler has not written the
    taint flag.
\<close>

theorem renew_taint_or_extend:
  assumes "getConfig (Storage req) = Inr (Some config)"
    and "Auth req = Some au"
    and "getOrErr E ''role'' (MapIfc (InternalData au)) = Inr roleName"
    and "getRole (Storage req) roleName = Inr (Some role)"
    and "getOrErr E ''instance_id'' (MapIfc (InternalData au)) = Inr instanceID"
    and "getOrErr E ''ip_address'' (MapIfc (InternalData au)) = Inr ipAddr"
    and "Alias au = Some al"
    and "getOrErr E ''org_id'' (MapString (Metadata al)) = Inr orgID"
    and "getOrErr E ''space_id'' (MapString (Metadata al)) = Inr spaceID"
    and "getOrErr E ''app_id'' (MapString (Metadata al)) = Inr appID"
    and "getCFClientOrRefresh E b config = (Inr cl, b')"
    and "Connection req = Some conn"
  shows "(validate E cl role (fst (NewCFCertificate E instanceID orgID spaceID appID ipAddr))
            (RemoteAddr conn) = Returns (Some err)
          \<longrightarrow> pathLoginRenew E b req
                = (Returns (Inr (ErrorResponse (Error_msg err))), b'\<lparr>cfClientTainted := True\<rparr>)
              \<and> cfClientTainted (snd (pathLoginRenew E b req)))
       \<and> (validate E cl role (fst (NewCFCertificate E instanceID orgID spaceID appID ipAddr))
            (RemoteAddr conn) = Returns None
          \<longrightarrow> pathLoginRenew E b req
                = (Returns (Inr (AuthResponse
                     (au\<lparr>TTL := TokenTTL role, MaxTTL := TokenMaxTTL role,
                         Period := TokenPeriod role\<rparr>))), b')
              \<and> cfClientTainted (snd (pathLoginRenew E b req)) = cfClientTainted b')"
  by (simp add: renew_to_validate [OF assms])

text \<open>
  Instances: the example \<^verbatim>\<open>Auth\<close> renewed from 10.0.0.6, which is not the address of
  the certificate, and renewed from 10.0.0.5/32.
\<close>

theorem renew_taint_or_extend_witness:
  "pathLoginRenew ex_env ex_backend (ex_req (Some ''10.0.0.6'') (Some ex_auth))
     = (Returns (Inr (ErrorResponse ''no matching IP address'')),
        ex_backend\<lparr>cfClientTainted := True\<rparr>)
   \<and> pathLoginRenew ex_env ex_backend (ex_req (Some ''10.0.0.5/32'') (Some ex_auth))
     = (Returns (Inr (AuthResponse
          (ex_auth\<lparr>TTL := TokenTTL ex_role, MaxTTL := TokenMaxTTL ex_role,
                   Period := TokenPeriod ex_role\<rparr>))), ex_backend)"
proof -
  obtain al where al: "Alias ex_auth = Some al"
    by (simp add: ex_auth_def)
  have W: "getConfig (Storage (ex_req (Some a) (Some ex_auth))) = Inr (Some ex_config)"
    "Auth (ex_req (Some a) (Some ex_auth)) = Some ex_auth"
    "getRole (Storage (ex_req (Some a) (Some ex_auth))) ''web'' = Inr (Some ex_role)"
    "Connection (ex_req (Some a) (Some ex_auth)) = Some \<lparr>RemoteAddr = a\<rparr>" for a
    by (simp_all add: ex_storage_simps ex_req_simps)
  note W1 = W [of "''10.0.0.6''"] and W2 = W [of "''10.0.0.5/32''"]
  note C = ex_client_refresh [of ex_backend ex_config]
  note T1 = renew_taint_or_extend [OF W1(1) W1(2) ex_getOrErr_internal(1) W1(3)
      ex_getOrErr_internal(2) ex_getOrErr_internal(3) al ex_getOrErr_alias(1) [OF al]
      ex_getOrErr_alias(2) [OF al] ex_getOrErr_alias(3) [OF al] C W1(4),
      of "Error ''no matching IP address''"]
  note T2 = renew_taint_or_extend [OF W2(1) W2(2) ex_getOrErr_internal(1) W2(3)
      ex_getOrErr_internal(2) ex_getOrErr_internal(3) al ex_getOrErr_alias(1) [OF al]
      ex_getOrErr_alias(2) [OF al] ex_getOrErr_alias(3) [OF al] C W2(4),
      of "Error ''no matching IP address''"]
  from T1 T2 show ?thesis
    by (simp add: ex_NewCFCertificate ex_validate_ok ex_validate_fails)
qed

subsection \<open>C6: bound constraints\<close>

text \<open>
  C6. \<^verbatim>\<open>meetsBoundConstraints\<close> is true for every value when the list of constraints is
  empty. When the list is not empty, it is true exactly when the value is an element of
  the list, by equality of strings: "app-1" does not meet the constraint "app-12".
\<close>

theorem meetsBoundConstraints_exact:
  "meetsBoundConstraints v []
   \<and> meetsBoundConstraints v (c # cs) = (v \<in> set (c # cs))
   \<and> \<not> meetsBoundConstraints ''app-1'' [''app-12'']"
  by (simp add: meetsBoundConstraints_def StrListContains_iff)

subsection \<open>C7: the IP address\<close>

text \<open>
  C7. \<^verbatim>\<open>matchesIPAddress\<close> compares, with \<^verbatim>\<open>IP.Equal\<close>, the certificate's address and
  what \<^verbatim>\<open>net.ParseIP\<close> makes of the remote address up to its first slash. Where
  \<^verbatim>\<open>net.ParseIP\<close> reads "10.0.0.5" as that address, the remote address "10.0.0.5/32"
  matches 10.0.0.5 and the remote address "10.0.0.5" does not match 10.0.0.6, in the
  4-byte and in the 16-byte form. For a role that disables IP matching, \<^verbatim>\<open>validate\<close>
  depends neither on the remote address nor on the parser; for a role that does not, a
  certificate whose address does not match is refused with "no matching IP address".
\<close>

theorem matchesIPAddress_strips_subnet:
  "matchesIPAddress E remoteAddr certIP
     = IP_Equal certIP (ParseIP E (takeWhile (\<lambda>c. c \<noteq> CHR ''/'') remoteAddr))
   \<and> (ParseIP E ''10.0.0.5'' = v4InV6Prefix @ [10, 0, 0, 5]
      \<longrightarrow> matchesIPAddress E ''10.0.0.5/32'' [10, 0, 0, 5]
          \<and> matchesIPAddress E ''10.0.0.5/32'' (v4InV6Prefix @ [10, 0, 0, 5])
          \<and> \<not> matchesIPAddress E ''10.0.0.5'' [10, 0, 0, 6]
          \<and> \<not> matchesIPAddress E ''10.0.0.5'' (v4InV6Prefix @ [10, 0, 0, 6]))
   \<and> (DisableIPMatching role
      \<longrightarrow> validate E cl role cfCert addr = validate E' cl role cfCert addr')
   \<and> (\<not> DisableIPMatching role \<and> \<not> matchesIPAddress E addr (ParseIP E (IPAddress c))
      \<longrightarrow> validate E cl role (Some c) addr = Returns (Some (Error ''no matching IP address'')))"
proof (intro conjI impI)
  show "matchesIPAddress E remoteAddr certIP
     = IP_Equal certIP (ParseIP E (takeWhile (\<lambda>c. c \<noteq> CHR ''/'') remoteAddr))"
    by (rule matchesIPAddress_takeWhile)
next
  assume p: "ParseIP E ''10.0.0.5'' = v4InV6Prefix @ [10, 0, 0, 5]"
  then show "matchesIPAddress E ''10.0.0.5/32'' [10, 0, 0, 5]"
    and "matchesIPAddress E ''10.0.0.5/32'' (v4InV6Prefix @ [10, 0, 0, 5])"
    and "\<not> matchesIPAddress E ''10.0.0.5'' [10, 0, 0, 6]"
    and "\<not> matchesIPAddress E ''10.0.0.5'' (v4InV6Prefix @ [10, 0, 0, 6])"
    by (simp_all add: matchesIPAddress_takeWhile IP_Equal_def v4InV6Prefix_def)
next
  assume "DisableIPMatching role"
  then show "validate E cl role cfCert addr = validate E' cl role cfCert addr'"
    by (cases cfCert) (simp_all add: validate_def)
next
  assume "\<not> DisableIPMatching role \<and> \<not> matchesIPAddress E addr (ParseIP E (IPAddress c))"
  then show "validate E cl role (Some c) addr = Returns (Some (Error ''no matching IP address''))"
    by (simp add: validate_def)
qed

text \<open>
  Instances: the example parser, a role that disables IP matching and is renewed from
  two addresses, and the example role, which does not, asked from 10.0.0.6.
\<close>

theorem matchesIPAddress_strips_subnet_witness:
  "matchesIPAddress ex_env ''10.0.0.5/32'' [10, 0, 0, 5]
   \<and> \<not> matchesIPAddress ex_env ''10.0.0.5'' [10, 0, 0, 6]
   \<and> validate ex_env ex_client (ex_role\<lparr>DisableIPMatching := True\<rparr>) (Some ex_cert) ''10.0.0.5/32''
     = validate ex_env ex_client (ex_role\<lparr>DisableIPMatching := True\<rparr>) (Some ex_cert) ''192.168.1.1''
   \<and> validate ex_env ex_client ex_role (Some ex_cert) ''10.0.0.6''
     = Returns (Some (Error ''no matching IP address''))"
proof -
  have p: "ParseIP ex_env ''10.0.0.5'' = v4InV6Prefix @ [10, 0, 0, 5]"
    by (simp add: ex_env_def)
  have d: "DisableIPMatching (ex_role\<lparr>DisableIPMatching := True\<rparr>)"
    by simp
  have n: "\<not> DisableIPMatching ex_role
           \<and> \<not> matchesIPAddress ex_env ''10.0.0.6'' (ParseIP ex_env (IPAddress ex_cert))"
    by (simp add: ex_role_def ex_cert_def ex_matches)
  from matchesIPAddress_strips_subnet
    [of ex_env _ _ "ex_role\<lparr>DisableIPMatching := True\<rparr>" ex_client "Some ex_cert"
       "''10.0.0.5/32''" ex_env "''192.168.1.1''"] p d
  have "matchesIPAddress ex_env ''10.0.0.5/32'' [10, 0, 0, 5]"
    and "\<not> matchesIPAddress ex_env ''10.0.0.5'' [10, 0, 0, 6]"
    and "validate ex_env ex_client (ex_role\<lparr>DisableIPMatching := True\<rparr>) (Some ex_cert)
           ''10.0.0.5/32''
         = validate ex_env ex_client (ex_role\<lparr>DisableIPMatching := True\<rparr>) (Some ex_cert)
             ''192.168.1.1''"
    by blast+
  moreover from matchesIPAddress_strips_subnet
    [of ex_env _ _ ex_role ex_client _ "''10.0.0.6''" _ _ ex_cert] n
  have "validate ex_env ex_client ex_role (Some ex_cert) ''10.0.0.6''
        = Returns (Some (Error ''no matching IP address''))"
    by blast
  ultimately show ?thesis
    by blast
qed

subsection \<open>C8: a login with no connection\<close>

text \<open>
  C8. Take a login for a role with no bound CIDRs, from a request that carries no
  connection. If the request passes every statement before the call of
  \<^verbatim>\<open>validate\<close> (the fields are present, the signing time parses and is in the window,
  the certificates are extracted and verified, the CF certificate is read and a client
  is obtained), then evaluating \<^verbatim>\<open>req.Connection.RemoteAddr\<close> panics: the handler
  returns neither a response nor an error. And whatever the request, such a login never
  ends with an \<^verbatim>\<open>Auth\<close>.
\<close>

theorem login_nil_connection_panics:
  assumes "data_Get d ''role'' \<noteq> []"
    and "getRole (Storage req) (data_Get d ''role'') = Inr (Some role)"
    and "TokenBoundCIDRs role = []"
    and "Connection req = None"
  shows "(data_Get d ''signature'' \<noteq> []
          \<and> data_Get d ''cf_instance_cert'' \<noteq> []
          \<and> data_Get d ''signing_time'' \<noteq> []
          \<and> parseTime E (data_Get d ''signing_time'') = Inr t
          \<and> getConfig (Storage req) = Inr (Some config)
          \<and> \<not> time_Before t (time_Add now (- 1 * LoginMaxSecNotBefore config))
          \<and> \<not> time_After t (time_Add now (LoginMaxSecNotAfter config))
          \<and> ExtractCertificates E (data_Get d ''cf_instance_cert'') = Inr (ic, idc)
          \<and> Verify E (data_Get d ''signature'')
                \<lparr>SigningTime = t, Role = data_Get d ''role'',
                 CFInstanceCertContents = data_Get d ''cf_instance_cert''\<rparr> = Inr sc
          \<and> Validate E (IdentityCACertificates config) ic idc sc = None
          \<and> NewCFCertificateFromx509 E sc = (cfCert, None)
          \<and> getCFClientOrRefresh E b config = (Inr cl, b')
          \<longrightarrow> operationLoginUpdate E b now req d = (Panics, b'))
       \<and> (\<forall>a. fst (operationLoginUpdate E b now req d) \<noteq> Returns (Inr (AuthResponse a)))"
proof (intro conjI impI allI)
  assume s: "data_Get d ''signature'' \<noteq> []
          \<and> data_Get d ''cf_instance_cert'' \<noteq> []
          \<and> data_Get d ''signing_time'' \<noteq> []
          \<and> parseTime E (data_Get d ''signing_time'') = Inr t
          \<and> getConfig (Storage req) = Inr (Some config)
          \<and> \<not> time_Before t (time_Add now (- 1 * LoginMaxSecNotBefore config))
          \<and> \<not> time_After t (time_Add now (LoginMaxSecNotAfter config))
          \<and> ExtractCertificates E (data_Get d ''cf_instance_cert'') = Inr (ic, idc)
          \<and> Verify E (data_Get d ''signature'')
                \<lparr>SigningTime = t, Role = data_Get d ''role'',
                 CFInstanceCertContents = data_Get d ''cf_instance_cert''\<rparr> = Inr sc
          \<and> Validate E (IdentityCACertificates config) ic idc sc = None
          \<and> NewCFCertificateFromx509 E sc = (cfCert, None)
          \<and> getCFClientOrRefresh E b config = (Inr cl, b')"
  then have s1: "data_Get d ''signature'' \<noteq> []"
    and s2: "data_Get d ''cf_instance_cert'' \<noteq> []"
    and s3: "data_Get d ''signing_time'' \<noteq> []"
    and s4: "parseTime E (data_Get d ''signing_time'') = Inr t"
    and s5: "getConfig (Storage req) = Inr (Some config)"
    and s6: "\<not> time_Before t (time_Add now (- 1 * LoginMaxSecNotBefore config))"
    and s7: "\<not> time_After t (time_Add now (LoginMaxSecNotAfter config))"
    and s8: "ExtractCertificates E (data_Get d ''cf_instance_cert'') = Inr (ic, idc)"
    and s9: "Verify E (data_Get d ''signature'')
                \<lparr>SigningTime = t, Role = data_Get d ''role'',
                 CFInstanceCertContents = data_Get d ''cf_instance_cert''\<rparr> = Inr sc"
    and s10: "Validate E (IdentityCACertificates config) ic idc sc = None"
    and s11: "NewCFCertificateFromx509 E sc = (cfCert, None)"
    and s12: "getCFClientOrRefresh E b config = (Inr cl, b')"
    by simp_all
  have c: "TokenBoundCIDRs role = []
         \<or> (\<exists>conn. Connection req = Some conn
               \<and> RemoteAddrIsOk E (RemoteAddr conn) (TokenBoundCIDRs role))"
    using assms(3) by simp
  have "operationLoginUpdate E b now req d
         = loginVerifyAndIssue E b req (data_Get d ''role'') role (data_Get d ''signature'')
             (data_Get d ''cf_instance_cert'') t config"
    by (rule login_to_verify [OF assms(1) assms(2) c s1 s2 s3 s4 s5 s6 s7])
  also have "\<dots> = (Panics, b')"
    by (rule loginVerifyAndIssue_nil_connection [OF assms(4) s8 s9 s10 s11 s12])
  finally show "operationLoginUpdate E b now req d = (Panics, b')" .
next
  fix a
  show "fst (operationLoginUpdate E b now req d) \<noteq> Returns (Inr (AuthResponse a))"
    by (rule operationLoginUpdate_nil_connection_no_auth [OF assms(4)])
qed

text \<open>
  An instance: the example login, valid in every field, from a request with no
  connection.
\<close>

theorem login_nil_connection_panics_witness:
  "operationLoginUpdate ex_env ex_backend 1000000000000 (ex_req None None) ex_data
     = (Panics, ex_backend)"
proof -
  let ?req = "ex_req None None"
  have h1: "data_Get ex_data ''role'' \<noteq> []"
    by (simp add: ex_data_Get)
  have h2: "getRole (Storage ?req) (data_Get ex_data ''role'') = Inr (Some ex_role)"
    by (simp add: ex_data_Get ex_storage_simps)
  have h3: "TokenBoundCIDRs ex_role = []"
    by (simp add: ex_role_def)
  have h4: "Connection ?req = None"
    by (simp add: ex_req_simps)
  have w: "\<not> time_Before 1000000000000
               (time_Add 1000000000000 (- 1 * LoginMaxSecNotBefore ex_config))"
    "\<not> time_After 1000000000000 (time_Add 1000000000000 (LoginMaxSecNotAfter ex_config))"
    using sint_neg_duration [of "LoginMaxSecNotBefore ex_config"]
    by (simp_all add: time_Before_def time_After_def time_Add_def ex_tolerances)
  have e: "ExtractCertificates ex_env ''pem'' = Inr (''intermediate'', ''identity'')"
    "Verify ex_env ''sig'' sd = Inr ''identity''"
    "Validate ex_env cas ''intermediate'' ''identity'' ''identity'' = None"
    "NewCFCertificateFromx509 ex_env ''identity'' = (Some ex_cert, None)" for sd cas
    by (simp_all add: ex_env_def)
  from login_nil_connection_panics [OF h1 h2 h3 h4, of ex_env 1000000000000 ex_config
      1000000000000 "''intermediate''" "''identity''" "''identity''" "Some ex_cert" ex_backend
      ex_client ex_backend]
  show ?thesis
    using w by (simp add: ex_data_Get ex_parseTime ex_storage_simps e ex_client_refresh)
qed

subsection \<open>C9: the error of the reconstruction\<close>

text \<open>
  C9. \<^verbatim>\<open>pathLoginRenew\<close> does not read the error that \<^verbatim>\<open>models.NewCFCertificate\<close>
  returns: replace that error by any other, for every argument, keeping the certificate
  that is returned with it, and the renewal returns the same result in the same state.
  So an error of the reconstruction does not by itself fail the renewal, which depends
  on the returned certificate alone.
\<close>

theorem renew_ignores_reconstruction_error:
  "pathLoginRenew
     (E\<lparr>NewCFCertificate := \<lambda>i og s a p. (fst (NewCFCertificate E i og s a p), e i og s a p)\<rparr>)
     b req
   = pathLoginRenew E b req"
  by (simp add: pathLoginRenew_def getOrErr_env validate_env del: getOrErr.simps
        cong: sum.case_cong)

subsection \<open>C10: empty strings in the metadata of the alias\<close>

text \<open>
  C10. On a \<^verbatim>\<open>map[string]string\<close>, \<^verbatim>\<open>getOrErr\<close> returns a value that is present and
  empty, with no error; on a \<^verbatim>\<open>map[string]interface{}\<close> the same value is the error
  "not a string". So a renewal whose alias holds empty \<^verbatim>\<open>org_id\<close>, \<^verbatim>\<open>space_id\<close> and
  \<^verbatim>\<open>app_id\<close> passes the extraction: the empty strings go to
  \<^verbatim>\<open>models.NewCFCertificate\<close>, and the result of the renewal is decided by \<^verbatim>\<open>validate\<close>.
\<close>

theorem getOrErr_string_map_empty_ok:
  "(m k = Some [] \<longrightarrow> getOrErr E k (MapString m) = Inr [])
   \<and> (mi k = Some (IString [])
      \<longrightarrow> getOrErr E k (MapIfc mi)
          = Inl (Error (''unable to retrieve '' @ fmt_q E k @ '' during renewal, not a string'')))
   \<and> (getConfig (Storage req) = Inr (Some config)
        \<and> Auth req = Some au
        \<and> getOrErr E ''role'' (MapIfc (InternalData au)) = Inr roleName
        \<and> getRole (Storage req) roleName = Inr (Some role)
        \<and> getOrErr E ''instance_id'' (MapIfc (InternalData au)) = Inr instanceID
        \<and> getOrErr E ''ip_address'' (MapIfc (InternalData au)) = Inr ipAddr
        \<and> Alias au = Some al
        \<and> Metadata al ''org_id'' = Some []
        \<and> Metadata al ''space_id'' = Some []
        \<and> Metadata al ''app_id'' = Some []
        \<and> getCFClientOrRefresh E b config = (Inr cl, b')
        \<and> Connection req = Some conn
      \<longrightarrow> pathLoginRenew E b req
          = (case validate E cl role (fst (NewCFCertificate E instanceID [] [] [] ipAddr))
                    (RemoteAddr conn) of
               Panics \<Rightarrow> (Panics, b')
             | Returns (Some err) \<Rightarrow>
                 (Returns (Inr (ErrorResponse (Error_msg err))), b'\<lparr>cfClientTainted := True\<rparr>)
             | Returns None \<Rightarrow>
                 (Returns (Inr (AuthResponse
                    (au\<lparr>TTL := TokenTTL role, MaxTTL := TokenMaxTTL role,
                        Period := TokenPeriod role\<rparr>))), b')))"
proof (intro conjI impI)
  assume "m k = Some []"
  then show "getOrErr E k (MapString m) = Inr []"
    by simp
next
  assume "mi k = Some (IString [])"
  then show "getOrErr E k (MapIfc mi)
          = Inl (Error (''unable to retrieve '' @ fmt_q E k @ '' during renewal, not a string''))"
    by simp
next
  assume s: "getConfig (Storage req) = Inr (Some config)
        \<and> Auth req = Some au
        \<and> getOrErr E ''role'' (MapIfc (InternalData au)) = Inr roleName
        \<and> getRole (Storage req) roleName = Inr (Some role)
        \<and> getOrErr E ''instance_id'' (MapIfc (InternalData au)) = Inr instanceID
        \<and> getOrErr E ''ip_address'' (MapIfc (InternalData au)) = Inr ipAddr
        \<and> Alias au = Some al
        \<and> Metadata al ''org_id'' = Some []
        \<and> Metadata al ''space_id'' = Some []
        \<and> Metadata al ''app_id'' = Some []
        \<and> getCFClientOrRefresh E b config = (Inr cl, b')
        \<and> Connection req = Some conn"
  then have c1: "getConfig (Storage req) = Inr (Some config)"
    and c2: "Auth req = Some au"
    and c3: "getOrErr E ''role'' (MapIfc (InternalData au)) = Inr roleName"
    and c4: "getRole (Storage req) roleName = Inr (Some role)"
    and c5: "getOrErr E ''instance_id'' (MapIfc (InternalData au)) = Inr instanceID"
    and c6: "getOrErr E ''ip_address'' (MapIfc (InternalData au)) = Inr ipAddr"
    and c7: "Alias au = Some al"
    and c11: "getCFClientOrRefresh E b config = (Inr cl, b')"
    and c12: "Connection req = Some conn"
    by blast+
  from s have g1: "getOrErr E ''org_id'' (MapString (Metadata al)) = Inr []"
    and g2: "getOrErr E ''space_id'' (MapString (Metadata al)) = Inr []"
    and g3: "getOrErr E ''app_id'' (MapString (Metadata al)) = Inr []"
    by simp_all
  show "pathLoginRenew E b req
          = (case validate E cl role (fst (NewCFCertificate E instanceID [] [] [] ipAddr))
                    (RemoteAddr conn) of
               Panics \<Rightarrow> (Panics, b')
             | Returns (Some err) \<Rightarrow>
                 (Returns (Inr (ErrorResponse (Error_msg err))), b'\<lparr>cfClientTainted := True\<rparr>)
             | Returns None \<Rightarrow>
                 (Returns (Inr (AuthResponse
                    (au\<lparr>TTL := TokenTTL role, MaxTTL := TokenMaxTTL role,
                        Period := TokenPeriod role\<rparr>))), b'))"
    by (rule renew_to_validate [OF c1 c2 c3 c4 c5 c6 c7 g1 g2 g3 c11 c12])
qed

text \<open>
  An instance: the example \<^verbatim>\<open>Auth\<close> with the three identifiers of its alias empty. The
  extraction passes, and it is \<^verbatim>\<open>validate\<close> that refuses the empty application ID, with
  a soft error.
\<close>

theorem getOrErr_string_map_empty_ok_witness:
  "getOrErr ex_env ''org_id'' (MapString [''org_id'' \<mapsto> []]) = Inr []
   \<and> getOrErr ex_env ''instance_id'' (MapIfc [''instance_id'' \<mapsto> IString []])
     = Inl (Error (''unable to retrieve '' @ fmt_q ex_env ''instance_id''
                     @ '' during renewal, not a string''))
   \<and> pathLoginRenew ex_env ex_backend
       (ex_req (Some ''10.0.0.5'')
          (Some (ex_auth\<lparr>Alias := Some \<lparr>alias_Name = ''app-1'',
                   Metadata = [''org_id'' \<mapsto> [], ''app_id'' \<mapsto> [], ''space_id'' \<mapsto> []]\<rparr>\<rparr>)))
     = (Returns (Inr (ErrorResponse
          (''app ID  doesn't match role constraints of [app-1]''))),
        ex_backend\<lparr>cfClientTainted := True\<rparr>)"
proof -
  let ?al = "\<lparr>alias_Name = ''app-1'',
              Metadata = [''org_id'' \<mapsto> [], ''app_id'' \<mapsto> [], ''space_id'' \<mapsto> []]\<rparr>"
  let ?au = "ex_auth\<lparr>Alias := Some ?al\<rparr>"
  let ?req = "ex_req (Some ''10.0.0.5'') (Some ?au)"
  have i: "InternalData ?au = InternalData ex_auth"
    by simp
  have v: "validate ex_env ex_client ex_role
             (fst (NewCFCertificate ex_env ''i-1'' [] [] [] ''10.0.0.5'')) ''10.0.0.5''
           = Returns (Some (Error ''app ID  doesn't match role constraints of [app-1]''))"
    by (simp add: ex_NewCFCertificate validate_def matchesIPAddress_takeWhile IP_Equal_def
          meetsBoundConstraints_def fmt_s_list_def ex_role_def ex_env_def)
  have s: "getConfig (Storage ?req) = Inr (Some ex_config)
        \<and> Auth ?req = Some ?au
        \<and> getOrErr ex_env ''role'' (MapIfc (InternalData ?au)) = Inr ''web''
        \<and> getRole (Storage ?req) ''web'' = Inr (Some ex_role)
        \<and> getOrErr ex_env ''instance_id'' (MapIfc (InternalData ?au)) = Inr ''i-1''
        \<and> getOrErr ex_env ''ip_address'' (MapIfc (InternalData ?au)) = Inr ''10.0.0.5''
        \<and> Alias ?au = Some ?al
        \<and> Metadata ?al ''org_id'' = Some []
        \<and> Metadata ?al ''space_id'' = Some []
        \<and> Metadata ?al ''app_id'' = Some []
        \<and> getCFClientOrRefresh ex_env ex_backend ex_config = (Inr ex_client, ex_backend)
        \<and> Connection ?req = Some \<lparr>RemoteAddr = ''10.0.0.5''\<rparr>"
    unfolding i
    by (simp add: ex_storage_simps ex_req_simps ex_getOrErr_internal ex_client_refresh
          del: getOrErr.simps)
  have m: "[''org_id'' \<mapsto> []] ''org_id'' = Some ([] :: string)"
    "[''instance_id'' \<mapsto> IString []] ''instance_id'' = Some (IString [])"
    by simp_all
  from getOrErr_string_map_empty_ok
    [of "[''org_id'' \<mapsto> []]" "''org_id''" ex_env "[''instance_id'' \<mapsto> IString []]" ?req
       ex_config ?au "''web''" ex_role "''i-1''" "''10.0.0.5''" ?al ex_backend ex_client
       ex_backend "\<lparr>RemoteAddr = ''10.0.0.5''\<rparr>"]
  have "getOrErr ex_env ''org_id'' (MapString [''org_id'' \<mapsto> []]) = Inr []"
    using m(1) by blast
  moreover from getOrErr_string_map_empty_ok
    [of _ "''instance_id''" ex_env "[''instance_id'' \<mapsto> IString []]"]
  have "getOrErr ex_env ''instance_id'' (MapIfc [''instance_id'' \<mapsto> IString []])
     = Inl (Error (''unable to retrieve '' @ fmt_q ex_env ''instance_id''
                     @ '' during renewal, not a string''))"
    using m(2) by blast
  moreover have "pathLoginRenew ex_env ex_backend ?req
     = (Returns (Inr (ErrorResponse
          (''app ID  doesn't match role constraints of [app-1]''))),
        ex_backend\<lparr>cfClientTainted := True\<rparr>)"
    using getOrErr_string_map_empty_ok
      [of _ _ ex_env _ ?req
         ex_config ?au "''web''" ex_role "''i-1''" "''10.0.0.5''" ?al ex_backend ex_client
         ex_backend "\<lparr>RemoteAddr = ''10.0.0.5''\<rparr>",
       THEN conjunct2, THEN conjunct2, THEN mp, OF s]
    by (simp add: v)
  ultimately show ?thesis
    by blast
qed

end
